theory Spec2Isabelle
  imports Complex_Main "HOL-Library.Word"
begin

unbundle bit_operations_syntax

section \<open>Data model of the reader (types.ts, wasm.ts, OmFileReaderBackend.ts)\<close>

text \<open>
  The TypeScript reader drives a C library compiled to WebAssembly. The C library itself is
  not part of the sources; only its interface (\<open>WasmModule\<close> in wasm.ts) is. The
  embedding below therefore takes the C functions as the fields of a record and translates
  the TypeScript on top of them.

  Conventions of the embedding:
  \<^item> a JavaScript \<open>number\<close> that holds an offset, a size, an index or a type code is an
    \<open>int\<close> (the values are integers below \<open>2^53\<close>, where the double arithmetic of
    JavaScript is exact); array elements and scale factors are \<open>real\<close>;
  \<^item> the linear memory of the module is not modelled: a buffer that the TypeScript copies
    into the heap and passes by pointer is passed by value, and an out-parameter of a C
    function is part of the value the function returns;
  \<^item> a rejected promise and a thrown \<open>Error\<close> are both a value \<open>Inl e\<close> (or
    \<open>Some e\<close> where the operation returns nothing);
  \<^item> \<open>malloc\<close> and \<open>free\<close> are dropped, and so are the \<open>console.log\<close> calls.
\<close>

type_synonym bytes = "8 word list"

record Range =
  range_start :: int
  range_end :: int

record OffsetSize =
  os_offset :: int
  os_size :: int

text \<open>The constructors of the typed arrays a caller can pass (\<open>TypedArray\<close> in types.ts).\<close>

datatype ArrayKind =
  Int8ArrayK | Uint8ArrayK | Int16ArrayK | Uint16ArrayK
| Int32ArrayK | Uint32ArrayK | Float32ArrayK | Float64ArrayK

record TypedArray =
  kind :: ArrayKind
  elems :: "real list"

fun bytesPerElement :: "ArrayKind \<Rightarrow> nat" where
  "bytesPerElement Int8ArrayK = 1"
| "bytesPerElement Uint8ArrayK = 1"
| "bytesPerElement Int16ArrayK = 2"
| "bytesPerElement Uint16ArrayK = 2"
| "bytesPerElement Int32ArrayK = 4"
| "bytesPerElement Uint32ArrayK = 4"
| "bytesPerElement Float32ArrayK = 4"
| "bytesPerElement Float64ArrayK = 8"

definition byteLength :: "TypedArray \<Rightarrow> nat" where
  "byteLength a = length (elems a) * bytesPerElement (kind a)"

text \<open>
  Every \<open>throw new Error(...)\<close> of OmFileReader.ts is one constructor; the message of the
  source is given beside it. \<open>InvalidTypedArrayLength\<close> is the \<open>RangeError\<close> that
  \<open>new Float32Array(n)\<close> raises for a negative \<open>n\<close>, and \<open>BackendFailure\<close> is a
  rejection of \<open>getBytes\<close> or \<open>count\<close>.
\<close>

datatype error =
  ReaderNotInitialized            \<comment> \<open>"Reader not initialized"\<close>
| NotAValidOmFile                 \<comment> \<open>"Not a valid OM file"\<close>
| FailedToReadTrailer             \<comment> \<open>"Failed to read trailer"\<close>
| UnknownHeaderType               \<comment> \<open>"Unknown header type"\<close>
| InvalidDataType int int         \<comment> \<open>"Invalid data type: expected .., got .."\<close>
| UnsupportedDataType             \<comment> \<open>"Unsupported data type"\<close>
| InvalidTypedArrayLength         \<comment> \<open>RangeError of the typed-array constructor\<close>
| MismatchedDimensions nat nat    \<comment> \<open>"Mismatched dimensions: file has .., request has .."\<close>
| OutputArrayTooSmall int nat     \<comment> \<open>"Output array is too small: needs .., has .."\<close>
| InvalidRange nat                \<comment> \<open>"Invalid range for dimension i: .."\<close>
| DecoderInitFailed int           \<comment> \<open>"Decoder initialization failed: error code .."\<close>
| DecodeChunksFailed int          \<comment> \<open>"Decoder failed to decode chunks: error .."\<close>
| DataReadError int               \<comment> \<open>"Data read error: .."\<close>
| BackendFailure                  \<comment> \<open>the backend's promise was rejected\<close>

text \<open>The byte-range source (\<open>OmFileReaderBackend\<close>); \<open>None\<close> is a rejected promise.\<close>

record Backend =
  getBytes :: "int \<Rightarrow> int \<Rightarrow> bytes option"
  count :: "int option"

datatype BackendCall = GetBytes int int | Count

text \<open>A value read by \<open>readScalar\<close>: an integer or a floating-point number.\<close>

datatype ScalarValue = IntValue int | FloatValue real

text \<open>
  The interface \<open>WasmModule\<close>. The type parameters are the C structures the TypeScript only
  holds pointers to: \<open>'v\<close> an \<open>OmVariable_t\<close>, \<open>'dec\<close> an \<open>OmDecoder_t\<close>, \<open>'ir\<close>
  an \<open>OmDecoder_indexRead_t\<close>, \<open>'dr\<close> an \<open>OmDecoder_dataRead_t\<close>, and \<open>'mem\<close> the
  block of heap that \<open>decode\<close> allocates for the decoder's output and scratch buffer.
  A C function that reports success and fills out-parameters returns an option or a tuple.
  \<open>om_variable_get_dimensions\<close> and \<open>om_variable_get_chunks\<close> are the two library
  functions that the C wrappers of the repository call; \<open>ir_offset\<close>, \<open>ir_count\<close>,
  \<open>dr_offset\<close> and \<open>dr_count\<close> are the \<open>getValue\<close> reads of the first two fields of
  the read structures, \<open>getValue_int\<close> and \<open>getValue_float\<close> the \<open>getValue\<close> reads of a
  scalar payload, \<open>malloc_output\<close> the contents of the freshly allocated block and
  \<open>heap_elem\<close> the element at an index of a typed-array view of that block.
\<close>

record ('v, 'dec, 'ir, 'dr, 'mem) WasmModule =
  om_header_size :: int
  om_header_type :: "bytes \<Rightarrow> int"
  om_trailer_size :: int
  om_trailer_read :: "bytes \<Rightarrow> (int \<times> int) option"
  om_variable_init :: "bytes \<Rightarrow> 'v"
  om_variable_get_type :: "'v \<Rightarrow> int"
  om_variable_get_compression :: "'v \<Rightarrow> int"
  om_variable_get_scale_factor :: "'v \<Rightarrow> real"
  om_variable_get_add_offset :: "'v \<Rightarrow> real"
  om_variable_get_dimensions :: "'v \<Rightarrow> int list"
  om_variable_get_chunks :: "'v \<Rightarrow> int list"
  om_variable_get_name :: "'v \<Rightarrow> string"
  om_variable_get_children_count :: "'v \<Rightarrow> int"
  om_variable_get_children :: "'v \<Rightarrow> int \<Rightarrow> int \<Rightarrow> (int \<times> int) option"
  om_variable_get_scalar :: "'v \<Rightarrow> int \<times> int \<times> int"
  getValue_int :: "int \<Rightarrow> string \<Rightarrow> int"
  getValue_float :: "int \<Rightarrow> string \<Rightarrow> real"
  om_decoder_init ::
    "'v \<Rightarrow> int \<Rightarrow> int list \<Rightarrow> int list \<Rightarrow> int list \<Rightarrow> int list \<Rightarrow> int \<Rightarrow> int \<Rightarrow> int \<times> 'dec"
  om_decoder_init_index_read :: "'dec \<Rightarrow> 'ir"
  om_decoder_init_data_read :: "'ir \<Rightarrow> 'dr"
  om_decoder_read_buffer_size :: "'dec \<Rightarrow> int"
  om_decoder_next_index_read :: "'dec \<Rightarrow> 'ir \<Rightarrow> bool \<times> 'ir"
  ir_offset :: "'ir \<Rightarrow> int"
  ir_count :: "'ir \<Rightarrow> int"
  om_decoder_next_data_read :: "'dec \<Rightarrow> 'dr \<Rightarrow> bytes \<Rightarrow> int \<Rightarrow> int \<Rightarrow> bool \<times> 'dr \<times> int"
  dr_offset :: "'dr \<Rightarrow> int"
  dr_count :: "'dr \<Rightarrow> int"
  om_decoder_decode_chunks ::
    "'dec \<Rightarrow> 'dr \<Rightarrow> bytes \<Rightarrow> int \<Rightarrow> 'mem \<Rightarrow> int \<Rightarrow> bool \<times> 'mem \<times> int"
  malloc_output :: "nat \<Rightarrow> int \<Rightarrow> 'mem"
  heap_elem :: "'mem \<Rightarrow> ArrayKind \<Rightarrow> nat \<Rightarrow> real"

text \<open>
  The constants that \<open>createWrappedModule\<close> spreads into every module (\<open>HEADER_TYPES\<close>,
  \<open>ERROR_CODES\<close> and \<open>DATA_TYPES\<close> of wasm.ts).
\<close>

abbreviation (input) OM_HEADER_INVALID :: int where "OM_HEADER_INVALID \<equiv> 0"
abbreviation (input) OM_HEADER_LEGACY :: int where "OM_HEADER_LEGACY \<equiv> 1"
abbreviation (input) OM_HEADER_READ_TRAILER :: int where "OM_HEADER_READ_TRAILER \<equiv> 2"
abbreviation (input) ERROR_OK :: int where "ERROR_OK \<equiv> 0"

abbreviation (input) DATA_TYPE_INT8 :: int where "DATA_TYPE_INT8 \<equiv> 1"
abbreviation (input) DATA_TYPE_UINT8 :: int where "DATA_TYPE_UINT8 \<equiv> 2"
abbreviation (input) DATA_TYPE_INT16 :: int where "DATA_TYPE_INT16 \<equiv> 3"
abbreviation (input) DATA_TYPE_UINT16 :: int where "DATA_TYPE_UINT16 \<equiv> 4"
abbreviation (input) DATA_TYPE_INT32 :: int where "DATA_TYPE_INT32 \<equiv> 5"
abbreviation (input) DATA_TYPE_UINT32 :: int where "DATA_TYPE_UINT32 \<equiv> 6"
abbreviation (input) DATA_TYPE_FLOAT :: int where "DATA_TYPE_FLOAT \<equiv> 9"
abbreviation (input) DATA_TYPE_DOUBLE :: int where "DATA_TYPE_DOUBLE \<equiv> 10"
abbreviation (input) DATA_TYPE_INT8_ARRAY :: int where "DATA_TYPE_INT8_ARRAY \<equiv> 12"
abbreviation (input) DATA_TYPE_UINT8_ARRAY :: int where "DATA_TYPE_UINT8_ARRAY \<equiv> 13"
abbreviation (input) DATA_TYPE_INT16_ARRAY :: int where "DATA_TYPE_INT16_ARRAY \<equiv> 14"
abbreviation (input) DATA_TYPE_UINT16_ARRAY :: int where "DATA_TYPE_UINT16_ARRAY \<equiv> 15"
abbreviation (input) DATA_TYPE_INT32_ARRAY :: int where "DATA_TYPE_INT32_ARRAY \<equiv> 16"
abbreviation (input) DATA_TYPE_UINT32_ARRAY :: int where "DATA_TYPE_UINT32_ARRAY \<equiv> 17"
abbreviation (input) DATA_TYPE_FLOAT_ARRAY :: int where "DATA_TYPE_FLOAT_ARRAY \<equiv> 20"
abbreviation (input) DATA_TYPE_DOUBLE_ARRAY :: int where "DATA_TYPE_DOUBLE_ARRAY \<equiv> 21"

text \<open>
  The class \<open>OmFileReader\<close>. \<open>variable\<close> is the pointer to the parsed variable or
  \<open>null\<close>; \<open>variableDataPtr\<close> only records whether the reader owns a heap block.
\<close>

record ('v, 'dec, 'ir, 'dr, 'mem) OmFileReader =
  backend :: Backend
  wasm :: "('v, 'dec, 'ir, 'dr, 'mem) WasmModule"
  variable :: "'v option"
  variableData :: "bytes option"
  variableDataPtr :: "unit option"
  offsetSize :: "OffsetSize option"

definition new_OmFileReader ::
  "Backend \<Rightarrow> ('v, 'dec, 'ir, 'dr, 'mem) WasmModule \<Rightarrow> ('v, 'dec, 'ir, 'dr, 'mem) OmFileReader" where
  "new_OmFileReader b w =
     \<lparr>backend = b, wasm = w, variable = None, variableData = None,
      variableDataPtr = None, offsetSize = None\<rparr>"

section \<open>initialize and dispose\<close>

text \<open>
  \<open>initialize\<close> returns the backend calls it issued, in order, the reader as it is when
  the promise settles, and the error if it was rejected.
\<close>

definition finish_initialize ::
  "BackendCall list \<Rightarrow> ('v, 'dec, 'ir, 'dr, 'mem) OmFileReader \<Rightarrow> bytes
   \<Rightarrow> BackendCall list \<times> ('v, 'dec, 'ir, 'dr, 'mem) OmFileReader \<times> error option" where
  "finish_initialize calls r data =
     (calls,
      r\<lparr>variable := Some (om_variable_init (wasm r) data),
        variableData := Some data,
        variableDataPtr := Some ()\<rparr>,
      None)"

definition initialize ::
  "('v, 'dec, 'ir, 'dr, 'mem) OmFileReader
   \<Rightarrow> BackendCall list \<times> ('v, 'dec, 'ir, 'dr, 'mem) OmFileReader \<times> error option" where
  "initialize r =
     (let w = wasm r; b = backend r;
          headerSize = om_header_size w;
          c1 = [GetBytes 0 headerSize]
      in case getBytes b 0 headerSize of
           None \<Rightarrow> (c1, r, Some BackendFailure)
         | Some headerData \<Rightarrow>
             (let headerType = om_header_type w headerData
              in if headerType = OM_HEADER_INVALID then (c1, r, Some NotAValidOmFile)
                 else if headerType = OM_HEADER_LEGACY then
                   finish_initialize c1 (r\<lparr>offsetSize := None\<rparr>) headerData
                 else if headerType = OM_HEADER_READ_TRAILER then
                   (let c2 = c1 @ [Count]
                    in case count b of
                         None \<Rightarrow> (c2, r, Some BackendFailure)
                       | Some fileSize \<Rightarrow>
                           (let trailerSize = om_trailer_size w;
                                trailerOffset = fileSize - trailerSize;
                                c3 = c2 @ [GetBytes trailerOffset trailerSize]
                            in case getBytes b trailerOffset trailerSize of
                                 None \<Rightarrow> (c3, r, Some BackendFailure)
                               | Some trailerData \<Rightarrow>
                                   (case om_trailer_read w trailerData of
                                      None \<Rightarrow> (c3, r, Some FailedToReadTrailer)
                                    | Some (offset, sz) \<Rightarrow>
                                        (let r1 = r\<lparr>offsetSize :=
                                                     Some \<lparr>os_offset = offset, os_size = sz\<rparr>\<rparr>;
                                             c4 = c3 @ [GetBytes offset sz]
                                         in case getBytes b offset sz of
                                              None \<Rightarrow> (c4, r1, Some BackendFailure)
                                            | Some varData \<Rightarrow>
                                                finish_initialize c4 r1 varData))))
                 else (c1, r, Some UnknownHeaderType)))"


section \<open>Metadata accessors\<close>

definition dataType :: "('v, 'dec, 'ir, 'dr, 'mem) OmFileReader \<Rightarrow> error + int" where
  "dataType r =
     (case variable r of
        None \<Rightarrow> Inl ReaderNotInitialized
      | Some v \<Rightarrow> Inr (om_variable_get_type (wasm r) v))"




text \<open>The C wrappers of the repository around the dimension and chunk tables.\<close>

definition om_variable_get_dimension_count ::
  "('v, 'dec, 'ir, 'dr, 'mem) WasmModule \<Rightarrow> 'v \<Rightarrow> nat" where
  "om_variable_get_dimension_count w v = length (om_variable_get_dimensions w v)"

definition om_variable_get_dimension_value ::
  "('v, 'dec, 'ir, 'dr, 'mem) WasmModule \<Rightarrow> 'v \<Rightarrow> nat \<Rightarrow> int" where
  "om_variable_get_dimension_value w v index =
     (let dims = om_variable_get_dimensions w v
      in if index \<ge> length dims then 0 else dims ! index)"



definition getDimensions :: "('v, 'dec, 'ir, 'dr, 'mem) OmFileReader \<Rightarrow> error + int list" where
  "getDimensions r =
     (case variable r of
        None \<Rightarrow> Inl ReaderNotInitialized
      | Some v \<Rightarrow>
          (let cnt = om_variable_get_dimension_count (wasm r) v
           in Inr (map (\<lambda>i. om_variable_get_dimension_value (wasm r) v i) [0..<cnt])))"


text \<open>
  \<open>getName\<close>: a name of size 0 is \<open>null\<close>. A JavaScript string is represented by
  its UTF-8 bytes, so that the decoding in \<open>_getString\<close> is the identity; this is what
  \<open>TextDecoder\<close> does on a name that is well-formed UTF-8 and does not start with a
  byte-order mark.
\<close>

definition getName :: "('v, 'dec, 'ir, 'dr, 'mem) OmFileReader \<Rightarrow> error + string option" where
  "getName r =
     (case variable r of
        None \<Rightarrow> Inl ReaderNotInitialized
      | Some v \<Rightarrow>
          (let nameStruct = om_variable_get_name (wasm r) v
           in if length nameStruct = 0 then Inr None else Inr (Some nameStruct)))"

definition numberOfChildren :: "('v, 'dec, 'ir, 'dr, 'mem) OmFileReader \<Rightarrow> error + int" where
  "numberOfChildren r =
     (case variable r of
        None \<Rightarrow> Inl ReaderNotInitialized
      | Some v \<Rightarrow> Inr (om_variable_get_children_count (wasm r) v))"

section \<open>Children\<close>

definition initChildFromOffsetSize ::
  "('v, 'dec, 'ir, 'dr, 'mem) OmFileReader \<Rightarrow> OffsetSize
   \<Rightarrow> error + ('v, 'dec, 'ir, 'dr, 'mem) OmFileReader" where
  "initChildFromOffsetSize r os =
     (case getBytes (backend r) (os_offset os) (os_size os) of
        None \<Rightarrow> Inl BackendFailure
      | Some childData \<Rightarrow>
          Inr ((new_OmFileReader (backend r) (wasm r))
                 \<lparr>variable := Some (om_variable_init (wasm r) childData),
                  variableData := Some childData,
                  variableDataPtr := Some (),
                  offsetSize := Some os\<rparr>))"

text \<open>\<open>getChild\<close>: \<open>Inr None\<close> is the promise resolved with \<open>null\<close>.\<close>

definition getChild ::
  "('v, 'dec, 'ir, 'dr, 'mem) OmFileReader \<Rightarrow> int
   \<Rightarrow> error + ('v, 'dec, 'ir, 'dr, 'mem) OmFileReader option" where
  "getChild r index =
     (case variable r of
        None \<Rightarrow> Inl ReaderNotInitialized
      | Some v \<Rightarrow>
          (case om_variable_get_children (wasm r) v index 1 of
             None \<Rightarrow> Inr None
           | Some (offset, sz) \<Rightarrow>
               (case initChildFromOffsetSize r \<lparr>os_offset = offset, os_size = sz\<rparr> of
                  Inl e \<Rightarrow> Inl e
                | Inr child \<Rightarrow> Inr (Some child))))"

section \<open>Scalars\<close>

text \<open>
  \<open>readScalar\<close>. The bit operations of the source act on 32-bit integers:
  \<open>x & 0xff\<close> and \<open>x & 0xffff\<close> keep the low bits of \<open>x\<close>, and \<open>x >>> 0\<close> is
  \<open>x\<close> modulo \<open>2^32\<close>. \<open>Inr None\<close> is the result \<open>null\<close>.
\<close>

definition scalar_value ::
  "('v, 'dec, 'ir, 'dr, 'mem) WasmModule \<Rightarrow> int \<Rightarrow> int \<Rightarrow> ScalarValue option" where
  "scalar_value w dataPtr dt =
     (if dt = DATA_TYPE_INT8 then Some (IntValue (getValue_int w dataPtr ''i8''))
      else if dt = DATA_TYPE_UINT8 then Some (IntValue (getValue_int w dataPtr ''i8'' AND 0xff))
      else if dt = DATA_TYPE_INT16 then Some (IntValue (getValue_int w dataPtr ''i16''))
      else if dt = DATA_TYPE_UINT16 then Some (IntValue (getValue_int w dataPtr ''i16'' AND 0xffff))
      else if dt = DATA_TYPE_INT32 then Some (IntValue (getValue_int w dataPtr ''i32''))
      else if dt = DATA_TYPE_UINT32 then Some (IntValue (getValue_int w dataPtr ''i32'' mod 2 ^ 32))
      else if dt = DATA_TYPE_FLOAT then Some (FloatValue (getValue_float w dataPtr ''float''))
      else if dt = DATA_TYPE_DOUBLE then Some (FloatValue (getValue_float w dataPtr ''double''))
      else None)"

definition readScalar ::
  "('v, 'dec, 'ir, 'dr, 'mem) OmFileReader \<Rightarrow> int \<Rightarrow> error + ScalarValue option" where
  "readScalar r dt =
     (case variable r of
        None \<Rightarrow> Inl ReaderNotInitialized
      | Some v \<Rightarrow>
          (case dataType r of
             Inl e \<Rightarrow> Inl e
           | Inr actual \<Rightarrow>
               if actual \<noteq> dt then Inr None
               else
                 (case om_variable_get_scalar (wasm r) v of
                    (err, dataPtr, sz) \<Rightarrow>
                      if err \<noteq> ERROR_OK then Inr None
                      else if dataPtr = 0 then Inr None
                      else Inr (scalar_value (wasm r) dataPtr dt))))"

section \<open>Decoding\<close>

text \<open>
  The two nested \<open>while\<close> loops of \<open>decode\<close>. How often the C functions
  \<open>om_decoder_next_index_read\<close> and \<open>om_decoder_next_data_read\<close> answer \<open>true\<close> is up
  to the library, so both loops are partial functions: \<open>None\<close> means that the loop never
  ends. A result carries the backend calls issued so far and either the error thrown or the
  decoder's memory block with the value of the error cell.
\<close>

partial_function (option) data_read_loop ::
  "('v, 'dec, 'ir, 'dr, 'mem) WasmModule \<Rightarrow> Backend \<Rightarrow> 'dec \<Rightarrow> bytes \<Rightarrow> int
   \<Rightarrow> 'dr \<Rightarrow> 'mem \<Rightarrow> int \<Rightarrow> BackendCall list
   \<Rightarrow> (BackendCall list \<times> (error + 'mem \<times> int)) option" where
  "data_read_loop w b dec indexData indexCount dr mem err calls =
     (case om_decoder_next_data_read w dec dr indexData indexCount err of
        (cont, dr1, err1) \<Rightarrow>
          if \<not> cont then Some (calls, Inr (mem, err1))
          else
            (let dataOffset = dr_offset w dr1;
                 dataCount = dr_count w dr1;
                 calls1 = calls @ [GetBytes dataOffset dataCount]
             in case getBytes b dataOffset dataCount of
                  None \<Rightarrow> Some (calls1, Inl BackendFailure)
                | Some dataBlock \<Rightarrow>
                    (case om_decoder_decode_chunks w dec dr1 dataBlock dataCount mem err1 of
                       (success, mem1, err2) \<Rightarrow>
                         if \<not> success then Some (calls1, Inl (DecodeChunksFailed err2))
                         else data_read_loop w b dec indexData indexCount dr1 mem1 err2 calls1)))"

partial_function (option) index_read_loop ::
  "('v, 'dec, 'ir, 'dr, 'mem) WasmModule \<Rightarrow> Backend \<Rightarrow> 'dec
   \<Rightarrow> 'ir \<Rightarrow> 'mem \<Rightarrow> int \<Rightarrow> BackendCall list
   \<Rightarrow> (BackendCall list \<times> (error + 'mem \<times> int)) option" where
  "index_read_loop w b dec ir mem err calls =
     (case om_decoder_next_index_read w dec ir of
        (cont, ir1) \<Rightarrow>
          if \<not> cont then Some (calls, Inr (mem, err))
          else
            (let indexOffset = ir_offset w ir1;
                 indexCount = ir_count w ir1;
                 calls1 = calls @ [GetBytes indexOffset indexCount]
             in case getBytes b indexOffset indexCount of
                  None \<Rightarrow> Some (calls1, Inl BackendFailure)
                | Some indexData \<Rightarrow>
                    Option.bind
                      (data_read_loop w b dec indexData indexCount
                         (om_decoder_init_data_read w ir1) mem err calls1)
                      (\<lambda>res. case res of
                         (calls2, Inl e) \<Rightarrow> Some (calls2, Inl e)
                       | (calls2, Inr (mem1, err1)) \<Rightarrow>
                           if err1 \<noteq> ERROR_OK then Some (calls2, Inl (DataReadError err1))
                           else index_read_loop w b dec ir1 mem1 err1 calls2)))"

declare data_read_loop.simps [code]
declare index_read_loop.simps [code]

text \<open>
  \<open>copyToTypedArray\<close>: every case of the switch views the block as an array of the
  target's own constructor and length and stores that view into the target.
\<close>

definition copyToTypedArray ::
  "('v, 'dec, 'ir, 'dr, 'mem) WasmModule \<Rightarrow> 'mem \<Rightarrow> TypedArray \<Rightarrow> TypedArray" where
  "copyToTypedArray w mem targetArray =
     targetArray\<lparr>elems := map (heap_elem w mem (kind targetArray))
                               [0..<length (elems targetArray)]\<rparr>"

text \<open>
  \<open>decode\<close> returns the backend calls, the caller's array as it is when the promise
  settles, and the error if it was rejected. The array is written once, after both loops.
\<close>

definition decode ::
  "('v, 'dec, 'ir, 'dr, 'mem) WasmModule \<Rightarrow> Backend \<Rightarrow> 'dec \<Rightarrow> TypedArray
   \<Rightarrow> (BackendCall list \<times> TypedArray \<times> error option) option" where
  "decode w b dec outputArray =
     (let chunkBufferSize = om_decoder_read_buffer_size w dec;
          mem0 = malloc_output w (byteLength outputArray) chunkBufferSize;
          indexRead = om_decoder_init_index_read w dec
      in case index_read_loop w b dec indexRead mem0 ERROR_OK [] of
           None \<Rightarrow> None
         | Some (calls, Inl e) \<Rightarrow> Some (calls, outputArray, Some e)
         | Some (calls, Inr (mem, err)) \<Rightarrow>
             Some (calls, copyToTypedArray w mem outputArray, None))"

section \<open>read and readInto\<close>

text \<open>
  The \<open>for\<close> loop of \<open>readInto\<close> over the dimensions: it validates the range of
  dimension \<open>i\<close> and then stores the four values of that dimension. The result is the
  four arrays handed to \<open>om_decoder_init\<close>.
\<close>

fun fill_arrays ::
  "Range list \<Rightarrow> int list \<Rightarrow> int list \<Rightarrow> int list \<Rightarrow> nat list
   \<Rightarrow> error + (int list \<times> int list \<times> int list \<times> int list)" where
  "fill_arrays dimRanges fileDims outDims intoCubeOffset [] = Inr ([], [], [], [])"
| "fill_arrays dimRanges fileDims outDims intoCubeOffset (i # rest) =
     (if range_start (dimRanges ! i) < 0
         \<or> range_end (dimRanges ! i) > fileDims ! i
         \<or> range_start (dimRanges ! i) \<ge> range_end (dimRanges ! i)
      then Inl (InvalidRange i)
      else
        (case fill_arrays dimRanges fileDims outDims intoCubeOffset rest of
           Inl e \<Rightarrow> Inl e
         | Inr (readOffset, readCount, cubeOffset, cubeDimension) \<Rightarrow>
             Inr (range_start (dimRanges ! i) # readOffset,
                  outDims ! i # readCount,
                  intoCubeOffset ! i # cubeOffset,
                  outDims ! i # cubeDimension)))"

definition readInto ::
  "('v, 'dec, 'ir, 'dr, 'mem) OmFileReader \<Rightarrow> int \<Rightarrow> TypedArray \<Rightarrow> Range list \<Rightarrow> int \<Rightarrow> int
   \<Rightarrow> (BackendCall list \<times> TypedArray \<times> error option) option" where
  "readInto r dt output dimRanges ioSizeMax ioSizeMerge =
     (case variable r of
        None \<Rightarrow> Some ([], output, Some ReaderNotInitialized)
      | Some v \<Rightarrow>
          (case dataType r of
             Inl e \<Rightarrow> Some ([], output, Some e)
           | Inr actual \<Rightarrow>
               if actual \<noteq> dt then Some ([], output, Some (InvalidDataType actual dt))
               else
                 (let nDims = length dimRanges
                  in case getDimensions r of
                       Inl e \<Rightarrow> Some ([], output, Some e)
                     | Inr fileDims \<Rightarrow>
                         if length fileDims \<noteq> nDims
                         then Some ([], output,
                                    Some (MismatchedDimensions (length fileDims) nDims))
                         else
                           (let outDims = map (\<lambda>range. range_end range - range_start range)
                                              dimRanges;
                                intoCubeOffset = replicate nDims 0;
                                totalElements = foldl (\<lambda>a b. a * b) 1 outDims
                            in if int (length (elems output)) < totalElements
                               then Some ([], output,
                                          Some (OutputArrayTooSmall totalElements
                                                  (length (elems output))))
                               else
                                 (case fill_arrays dimRanges fileDims outDims intoCubeOffset
                                         [0..<nDims] of
                                    Inl e \<Rightarrow> Some ([], output, Some e)
                                  | Inr (readOffset, readCount, cubeOffset, cubeDimension) \<Rightarrow>
                                      (case om_decoder_init (wasm r) v (int nDims) readOffset
                                              readCount cubeOffset cubeDimension
                                              ioSizeMerge ioSizeMax of
                                         (err, dec) \<Rightarrow>
                                           if err \<noteq> ERROR_OK
                                           then Some ([], output, Some (DecoderInitFailed err))
                                           else decode (wasm r) (backend r) dec output))))))"

text \<open>
  The switch of \<open>read\<close> over the data type, and the typed-array constructor. The
  constructor raises a \<open>RangeError\<close> for a negative length and for a length above the
  limit for typed arrays, and fills the new array with zeros otherwise. ECMAScript bounds
  the length by \<open>2^53 - 1\<close>; an engine bounds it further, by a number that depends on
  the engine and may depend on the element size. That number is the parameter
  \<open>maxLength\<close>, which \<open>read\<close> hands to the constructor. A typed array that a caller
  holds was built by the same constructor, so its length is within the limit
  (\<open>array_exists\<close>).
\<close>

definition output_kind :: "int \<Rightarrow> ArrayKind option" where
  "output_kind dt =
     (if dt = DATA_TYPE_INT8_ARRAY then Some Int8ArrayK
      else if dt = DATA_TYPE_UINT8_ARRAY then Some Uint8ArrayK
      else if dt = DATA_TYPE_INT16_ARRAY then Some Int16ArrayK
      else if dt = DATA_TYPE_UINT16_ARRAY then Some Uint16ArrayK
      else if dt = DATA_TYPE_INT32_ARRAY then Some Int32ArrayK
      else if dt = DATA_TYPE_UINT32_ARRAY then Some Uint32ArrayK
      else if dt = DATA_TYPE_FLOAT_ARRAY then Some Float32ArrayK
      else if dt = DATA_TYPE_DOUBLE_ARRAY then Some Float64ArrayK
      else None)"

definition typed_array_limit :: "(ArrayKind \<Rightarrow> nat) \<Rightarrow> ArrayKind \<Rightarrow> int" where
  "typed_array_limit maxLength k = min (int (maxLength k)) (2 ^ 53 - 1)"

definition array_exists :: "(ArrayKind \<Rightarrow> nat) \<Rightarrow> TypedArray \<Rightarrow> bool" where
  "array_exists maxLength a \<longleftrightarrow>
     int (length (elems a)) \<le> typed_array_limit maxLength (kind a)"

definition new_TypedArray :: "(ArrayKind \<Rightarrow> nat) \<Rightarrow> ArrayKind \<Rightarrow> int \<Rightarrow> error + TypedArray" where
  "new_TypedArray maxLength k n =
     (if n < 0 \<or> n > typed_array_limit maxLength k then Inl InvalidTypedArrayLength
      else Inr \<lparr>kind = k, elems = replicate (nat n) 0\<rparr>)"

definition read ::
  "(ArrayKind \<Rightarrow> nat) \<Rightarrow> ('v, 'dec, 'ir, 'dr, 'mem) OmFileReader \<Rightarrow> int \<Rightarrow> Range list
   \<Rightarrow> int \<Rightarrow> int \<Rightarrow> (BackendCall list \<times> (error + TypedArray)) option" where
  "read maxLength r dt dimRanges ioSizeMax ioSizeMerge =
     (case variable r of
        None \<Rightarrow> Some ([], Inl ReaderNotInitialized)
      | Some v \<Rightarrow>
          (case dataType r of
             Inl e \<Rightarrow> Some ([], Inl e)
           | Inr actual \<Rightarrow>
               if actual \<noteq> dt then Some ([], Inl (InvalidDataType actual dt))
               else
                 (let outDims = map (\<lambda>range. range_end range - range_start range) dimRanges;
                      totalSize = foldl (\<lambda>a b. a * b) 1 outDims
                  in case output_kind dt of
                       None \<Rightarrow> Some ([], Inl UnsupportedDataType)
                     | Some k \<Rightarrow>
                         (case new_TypedArray maxLength k totalSize of
                            Inl e \<Rightarrow> Some ([], Inl e)
                          | Inr output \<Rightarrow>
                              (case readInto r dt output dimRanges ioSizeMax ioSizeMerge of
                                 None \<Rightarrow> None
                               | Some (calls, out1, Some e) \<Rightarrow> Some (calls, Inl e)
                               | Some (calls, out1, None) \<Rightarrow> Some (calls, Inr out1))))))"

section \<open>Flattening the variable tree\<close>

text \<open>\<open>Array.prototype.join("/")\<close> on a list of names.\<close>

fun join_path :: "string list \<Rightarrow> string" where
  "join_path [] = []"
| "join_path [x] = x"
| "join_path (x # y # ys) = x @ ''/'' @ join_path (y # ys)"

text \<open>
  A \<open>for\<close> loop over child indices whose body may throw or may not return: the loop
  stops at the first body that does either.
\<close>

fun for_each_child ::
  "(int \<Rightarrow> 's \<Rightarrow> (error + 's) option) \<Rightarrow> int list \<Rightarrow> 's \<Rightarrow> (error + 's) option" where
  "for_each_child body [] s = Some (Inr s)"
| "for_each_child body (i # rest) s =
     (case body i s of
        None \<Rightarrow> None
      | Some (Inl e) \<Rightarrow> Some (Inl e)
      | Some (Inr s1) \<Rightarrow> for_each_child body rest s1)"

text \<open>
  The object \<open>result\<close> of \<open>getFlatVariableMetadata\<close> is a plain object literal. Its
  own properties are the recorded entries, and its prototype is \<open>Object.prototype\<close> (here
  \<open>None\<close>) until an assignment replaces it. The assignment \<open>result[key] = value\<close>
  creates or overwrites the own property \<open>key\<close>, except for the key \<open>__proto__\<close>: that
  key is an accessor inherited from \<open>Object.prototype\<close>, whose setter makes the assigned
  object the prototype of \<open>result\<close> and adds no own property.
\<close>

record FlatMetadata =
  own_entries :: "string \<rightharpoonup> OffsetSize"
  prototype :: "OffsetSize option"

definition empty_object :: FlatMetadata where
  "empty_object = \<lparr>own_entries = Map.empty, prototype = None\<rparr>"

definition js_assign :: "FlatMetadata \<Rightarrow> string \<Rightarrow> OffsetSize \<Rightarrow> FlatMetadata" where
  "js_assign obj key v =
     (if key = ''__proto__'' then obj\<lparr>prototype := Some v\<rparr>
      else obj\<lparr>own_entries := (own_entries obj)(key \<mapsto> v)\<rparr>)"

text \<open>
  \<open>collectVariableMetadata\<close> recurses as deep as the file's tree of children goes, and a
  file can point a child at its own parent. The first argument bounds the depth of the
  recursion: \<open>None\<close> means that the walk needs more nested calls than that.
\<close>

fun collectVariableMetadata ::
  "nat \<Rightarrow> ('v, 'dec, 'ir, 'dr, 'mem) OmFileReader \<Rightarrow> string list
   \<Rightarrow> FlatMetadata \<Rightarrow> (error + FlatMetadata) option" where
  "collectVariableMetadata 0 r currentPath result = None"
| "collectVariableMetadata (Suc fuel) r currentPath result =
     (case getName r of
        Inl e \<Rightarrow> Some (Inl e)
      | Inr name \<Rightarrow>
          (let result1 =
                 (case name of
                    None \<Rightarrow> result
                  | Some n \<Rightarrow>
                      (case offsetSize r of
                         None \<Rightarrow> result
                       | Some os \<Rightarrow> js_assign result (join_path (currentPath @ [n])) os))
           in case numberOfChildren r of
                Inl e \<Rightarrow> Some (Inl e)
              | Inr numChildren \<Rightarrow>
                  for_each_child
                    (\<lambda>i res.
                       case getChild r i of
                         Inl e \<Rightarrow> Some (Inl e)
                       | Inr None \<Rightarrow> Some (Inr res)
                       | Inr (Some child) \<Rightarrow>
                           collectVariableMetadata fuel child
                             (case name of None \<Rightarrow> currentPath | Some n \<Rightarrow> currentPath @ [n])
                             res)
                    (map int [0..<nat numChildren]) result1))"

definition getFlatVariableMetadata ::
  "nat \<Rightarrow> ('v, 'dec, 'ir, 'dr, 'mem) OmFileReader \<Rightarrow> (error + FlatMetadata) option" where
  "getFlatVariableMetadata fuel r = collectVariableMetadata fuel r [] empty_object"

subsection \<open>The walk as the specification words it\<close>

text \<open>
  The specification describes the walk over a tree of nodes, each with an optional name, an
  optional location and its children in order. \<open>spec_flatten\<close> follows the
  specification's words: depth first, a key \<open>parent/child/.../name\<close> only for a node that
  has both a name and a location, and the children of every node visited under the path of
  its named ancestors.
\<close>

datatype Node =
  Node (node_name: "string option") (node_location: "OffsetSize option")
       (node_children: "Node list")

fun spec_flatten :: "string list \<Rightarrow> Node \<Rightarrow> (string \<times> OffsetSize) list" where
  "spec_flatten path (Node name loc children) =
     (case (name, loc) of
        (Some n, Some l) \<Rightarrow> [(join_path (path @ [n]), l)]
      | _ \<Rightarrow> [])
     @ concat (map (spec_flatten (case name of None \<Rightarrow> path | Some n \<Rightarrow> path @ [n]))
                   children)"

text \<open>
  Recording a list of entries in order, as the specification has it: every entry is in the
  map afterwards, and a later entry replaces an earlier one with the same key.
\<close>

definition record_entries ::
  "(string \<times> OffsetSize) list \<Rightarrow> (string \<rightharpoonup> OffsetSize) \<Rightarrow> (string \<rightharpoonup> OffsetSize)" where
  "record_entries es m = foldl (\<lambda>acc (k, v). acc(k \<mapsto> v)) m es"

text \<open>The same list of entries assigned to the object of the source, one by one.\<close>

definition assign_entries :: "(string \<times> OffsetSize) list \<Rightarrow> FlatMetadata \<Rightarrow> FlatMetadata" where
  "assign_entries es obj = foldl (\<lambda>acc (k, v). js_assign acc k v) obj es"

text \<open>
  The tree a reader stands for: its own name and location, and the trees of the children
  that \<open>getChild\<close> materialises, in index order. The depth bound is as in
  \<open>collectVariableMetadata\<close>.
\<close>

fun reader_tree ::
  "nat \<Rightarrow> ('v, 'dec, 'ir, 'dr, 'mem) OmFileReader \<Rightarrow> (error + Node) option" where
  "reader_tree 0 r = None"
| "reader_tree (Suc fuel) r =
     (case getName r of
        Inl e \<Rightarrow> Some (Inl e)
      | Inr name \<Rightarrow>
          (case numberOfChildren r of
             Inl e \<Rightarrow> Some (Inl e)
           | Inr numChildren \<Rightarrow>
               (case for_each_child
                       (\<lambda>i cs.
                          case getChild r i of
                            Inl e \<Rightarrow> Some (Inl e)
                          | Inr None \<Rightarrow> Some (Inr cs)
                          | Inr (Some child) \<Rightarrow>
                              (case reader_tree fuel child of
                                 None \<Rightarrow> None
                               | Some (Inl e) \<Rightarrow> Some (Inl e)
                               | Some (Inr t) \<Rightarrow> Some (Inr (cs @ [t]))))
                       (map int [0..<nat numChildren]) [] of
                  None \<Rightarrow> None
                | Some (Inl e) \<Rightarrow> Some (Inl e)
                | Some (Inr cs) \<Rightarrow> Some (Inr (Node name (offsetSize r) cs)))))"

section \<open>A backend and a module to run the reader on\<close>

text \<open>
  \<open>FileBackend\<close> over a \<open>Uint8Array\<close> (FileBackend.ts): \<open>getBytes\<close> is
  \<open>file.slice(offset, offset + size)\<close>, where a negative bound counts from the end and
  both bounds are clamped to the array, and \<open>count\<close> throws for an empty array.
\<close>

definition js_slice :: "bytes \<Rightarrow> int \<Rightarrow> int \<Rightarrow> bytes" where
  "js_slice xs start fin =
     (let len = int (length xs);
          k = (if start < 0 then max (len + start) 0 else min start len);
          final = (if fin < 0 then max (len + fin) 0 else min fin len)
      in take (nat (final - k)) (drop (nat k) xs))"

definition FileBackend :: "bytes \<Rightarrow> Backend" where
  "FileBackend file =
     \<lparr>getBytes = (\<lambda>offset sz. Some (js_slice file offset (offset + sz))),
      count = (if length file > 0 then Some (int (length file)) else None)\<rparr>"

text \<open>
  A small stand-in for the compiled library, used to run the reader on concrete files. Its
  variable record is \<open>[tag, type, name code, child count, (offset, size) per child]\<close>, a
  header is four bytes whose first byte is the header type, and a trailer is the two bytes
  \<open>[offset, size]\<close> of the root. A child lookup succeeds for
  \<open>0 \<le> index\<close> and \<open>index + count \<le> child count\<close>, and a record with tag 9 has a
  malformed scalar payload. The decoder reads one index block at offset 4 and one data block
  at offset 6 and stores the bytes of the data block as the decoded elements.
\<close>

definition byte_at :: "bytes \<Rightarrow> nat \<Rightarrow> int" where
  "byte_at v i = (if i < length v then uint (v ! i) else 0)"

definition stub_name :: "int \<Rightarrow> string" where
  "stub_name c =
     (if c = 1 then ''a'' else if c = 2 then ''b'' else if c = 3 then ''c''
      else if c = 4 then ''__proto__'' else [])"

definition stub_wasm :: "(bytes, unit, nat, nat, real list) WasmModule" where
  "stub_wasm =
     \<lparr>om_header_size = 4,
      om_header_type = (\<lambda>h. byte_at h 0),
      om_trailer_size = 2,
      om_trailer_read =
        (\<lambda>t. if length t = 2 \<and> byte_at t 1 \<noteq> 0 then Some (byte_at t 0, byte_at t 1) else None),
      om_variable_init = (\<lambda>d. d),
      om_variable_get_type = (\<lambda>v. byte_at v 1),
      om_variable_get_compression = (\<lambda>v. 0),
      om_variable_get_scale_factor = (\<lambda>v. 1),
      om_variable_get_add_offset = (\<lambda>v. 0),
      om_variable_get_dimensions = (\<lambda>v. if byte_at v 1 \<ge> 12 then [5, 5] else []),
      om_variable_get_chunks = (\<lambda>v. if byte_at v 1 \<ge> 12 then [2, 2] else []),
      om_variable_get_name = (\<lambda>v. stub_name (byte_at v 2)),
      om_variable_get_children_count = (\<lambda>v. byte_at v 3),
      om_variable_get_children =
        (\<lambda>v index cnt.
           if 0 \<le> index \<and> index + cnt \<le> byte_at v 3
           then Some (byte_at v (nat (4 + 2 * index)), byte_at v (nat (5 + 2 * index)))
           else None),
      om_variable_get_scalar = (\<lambda>v. if byte_at v 0 = 9 then (1, 0, 0) else (0, 8, 4)),
      getValue_int = (\<lambda>p t. 42),
      getValue_float = (\<lambda>p t. 3 / 2),
      om_decoder_init = (\<lambda>v n readOffset readCount cubeOffset cubeDim merge mx. (0, ())),
      om_decoder_init_index_read = (\<lambda>d. 0),
      om_decoder_init_data_read = (\<lambda>ir. 0),
      om_decoder_read_buffer_size = (\<lambda>d. 16),
      om_decoder_next_index_read = (\<lambda>d ir. (ir < 1, Suc ir)),
      ir_offset = (\<lambda>ir. 4),
      ir_count = (\<lambda>ir. 2),
      om_decoder_next_data_read = (\<lambda>d dr indexData indexCount err. (dr < 1, Suc dr, err)),
      dr_offset = (\<lambda>dr. 6),
      dr_count = (\<lambda>dr. 4),
      om_decoder_decode_chunks =
        (\<lambda>d dr dataBlock dataCount mem err. (True, map (\<lambda>b. real_of_int (uint b)) dataBlock, err)),
      malloc_output = (\<lambda>n chunkBufferSize. []),
      heap_elem = (\<lambda>mem k i. if i < length mem then mem ! i else 0)\<rparr>"

text \<open>
  The files the reader is run on. \<open>array_file\<close> is a legacy file holding a float array of dimensions
  \<open>[5, 5]\<close> without name or children: the header, an index block and the data block
  \<open>[0, 1, 5, 6]\<close>. \<open>tree_file\<close> is trailer-addressed: a root named \<open>a\<close> at offset 4
  with two children, the first named \<open>b\<close>, the second without a name and with one child
  named \<open>c\<close>; the trailer is at offset 26. \<open>scalar_file\<close> is trailer-addressed with a
  root of type float whose scalar payload is malformed. \<open>int64_file\<close>, further down,
  is \<open>array_file\<close> with the data type of a 64-bit integer array.
\<close>

definition array_file :: bytes where
  "array_file = [1, 20, 0, 0, 6, 4, 0, 1, 5, 6]"

definition tree_file :: bytes where
  "tree_file =
     [2, 0, 0, 0,
      0, 0, 1, 2, 12, 4, 16, 6,
      0, 9, 2, 0,
      0, 0, 0, 1, 22, 4,
      0, 5, 3, 0,
      4, 8]"

definition scalar_file :: bytes where
  "scalar_file = [2, 0, 0, 0, 9, 9, 0, 0, 4, 4]"

definition array_reader :: "(bytes, unit, nat, nat, real list) OmFileReader" where
  "array_reader = fst (snd (initialize (new_OmFileReader (FileBackend array_file) stub_wasm)))"

definition tree_reader :: "(bytes, unit, nat, nat, real list) OmFileReader" where
  "tree_reader = fst (snd (initialize (new_OmFileReader (FileBackend tree_file) stub_wasm)))"

definition scalar_reader :: "(bytes, unit, nat, nat, real list) OmFileReader" where
  "scalar_reader = fst (snd (initialize (new_OmFileReader (FileBackend scalar_file) stub_wasm)))"

text \<open>
  \<open>proto_file\<close> is trailer-addressed; its root, at offset 4, is named \<open>__proto__\<close> and
  has no children.
\<close>

definition proto_file :: bytes where
  "proto_file = [2, 0, 0, 0, 0, 0, 4, 0, 4, 4]"

definition proto_reader :: "(bytes, unit, nat, nat, real list) OmFileReader" where
  "proto_reader = fst (snd (initialize (new_OmFileReader (FileBackend proto_file) stub_wasm)))"

text \<open>
  The limit on the length of a typed array used when the reader is run: \<open>2^32 - 1\<close>
  elements for every constructor.
\<close>

definition stub_max_length :: "ArrayKind \<Rightarrow> nat" where
  "stub_max_length k = 4294967295"

definition int64_file :: bytes where
  "int64_file = [1, 18, 0, 0, 6, 4, 0, 1, 5, 6]"

definition int64_reader :: "(bytes, unit, nat, nat, real list) OmFileReader" where
  "int64_reader = fst (snd (initialize (new_OmFileReader (FileBackend int64_file) stub_wasm)))"

section \<open>Notions used in the statements\<close>


text \<open>The extent of a range, the product of the extents of a request, and the test the
  loop of \<open>readInto\<close> applies to the range of one dimension.\<close>

definition range_extent :: "Range \<Rightarrow> int" where
  "range_extent rg = range_end rg - range_start rg"

definition extent_product :: "Range list \<Rightarrow> int" where
  "extent_product dimRanges = prod_list (map range_extent dimRanges)"

definition invalid_range :: "Range \<Rightarrow> int \<Rightarrow> bool" where
  "invalid_range rg extent \<longleftrightarrow>
     range_start rg < 0 \<or> range_end rg > extent \<or> range_start rg \<ge> range_end rg"

section \<open>The readers of the files\<close>

lemma array_reader_eq:
  "array_reader =
     \<lparr>backend = FileBackend array_file, wasm = stub_wasm, variable = Some [1, 20, 0, 0],
      variableData = Some [1, 20, 0, 0], variableDataPtr = Some (), offsetSize = None\<rparr>"
  by (simp add: array_reader_def initialize_def finish_initialize_def new_OmFileReader_def
      FileBackend_def js_slice_def array_file_def stub_wasm_def byte_at_def Let_def)

lemma int64_reader_eq:
  "int64_reader =
     \<lparr>backend = FileBackend int64_file, wasm = stub_wasm, variable = Some [1, 18, 0, 0],
      variableData = Some [1, 18, 0, 0], variableDataPtr = Some (), offsetSize = None\<rparr>"
  by (simp add: int64_reader_def initialize_def finish_initialize_def new_OmFileReader_def
      FileBackend_def js_slice_def int64_file_def stub_wasm_def byte_at_def Let_def)

lemma scalar_reader_eq:
  "scalar_reader =
     \<lparr>backend = FileBackend scalar_file, wasm = stub_wasm, variable = Some [9, 9, 0, 0],
      variableData = Some [9, 9, 0, 0], variableDataPtr = Some (),
      offsetSize = Some \<lparr>os_offset = 4, os_size = 4\<rparr>\<rparr>"
  by (simp add: scalar_reader_def initialize_def finish_initialize_def new_OmFileReader_def
      FileBackend_def js_slice_def scalar_file_def stub_wasm_def byte_at_def Let_def)

lemma tree_reader_eq:
  "tree_reader =
     \<lparr>backend = FileBackend tree_file, wasm = stub_wasm,
      variable = Some [0, 0, 1, 2, 12, 4, 16, 6],
      variableData = Some [0, 0, 1, 2, 12, 4, 16, 6], variableDataPtr = Some (),
      offsetSize = Some \<lparr>os_offset = 4, os_size = 8\<rparr>\<rparr>"
  by (simp add: tree_reader_def initialize_def finish_initialize_def new_OmFileReader_def
      FileBackend_def js_slice_def tree_file_def stub_wasm_def byte_at_def Let_def)


section \<open>Child lookup beyond the child count\<close>




section \<open>Scalars with a mismatched type or a malformed payload\<close>

text \<open>
  Claim C3 as stated: \<open>readScalar\<close> returns \<open>null\<close> when the variable's type differs from
  the expected type, and fails with a decode error when the scalar payload is malformed. The
  root of \<open>scalar_file\<close> has type 9 and the library reports error code 1 for its payload;
  \<open>readScalar\<close> with the matching type 9 returns \<open>null\<close> and throws nothing.
\<close>

theorem readScalar_malformed_counterexample:
  "dataType scalar_reader = Inr 9
   \<and> om_variable_get_scalar (wasm scalar_reader) [9, 9, 0, 0] = (1, 0, 0)
   \<and> readScalar scalar_reader 9 = Inr None"
  by (simp add: scalar_reader_eq dataType_def readScalar_def stub_wasm_def byte_at_def)

text \<open>
  Claim C3 as amended: for every initialized reader, \<open>readScalar\<close> returns \<open>null\<close> when
  the variable's type differs from the expected type, and also when the library reports an
  error code other than \<open>ERROR_OK\<close> for the scalar payload or hands back a null data
  pointer; on an initialized reader \<open>readScalar\<close> never fails.
\<close>

theorem readScalar_returns_null:
  assumes "variable r = Some v"
  shows "(om_variable_get_type (wasm r) v \<noteq> dt \<longrightarrow> readScalar r dt = Inr None)
       \<and> (fst (om_variable_get_scalar (wasm r) v) \<noteq> ERROR_OK \<longrightarrow> readScalar r dt = Inr None)
       \<and> (fst (snd (om_variable_get_scalar (wasm r) v)) = 0 \<longrightarrow> readScalar r dt = Inr None)
       \<and> \<not> isl (readScalar r dt)"
  using assms by (simp add: readScalar_def dataType_def split: prod.splits)

theorem readScalar_returns_null_witness:
  "variable scalar_reader = Some [9, 9, 0, 0]
   \<and> om_variable_get_type (wasm scalar_reader) [9, 9, 0, 0] \<noteq> 5
   \<and> fst (om_variable_get_scalar (wasm scalar_reader) [9, 9, 0, 0]) \<noteq> 0
   \<and> fst (snd (om_variable_get_scalar (wasm scalar_reader) [9, 9, 0, 0])) = 0
   \<and> readScalar scalar_reader 5 = Inr None
   \<and> readScalar scalar_reader 9 = Inr None
   \<and> \<not> isl (readScalar scalar_reader 9)"
proof -
  have v: "variable scalar_reader = Some [9, 9, 0, 0]"
    by (simp add: scalar_reader_eq)
  have facts:
    "om_variable_get_type (wasm scalar_reader) [9, 9, 0, 0] \<noteq> 5"
    "fst (om_variable_get_scalar (wasm scalar_reader) [9, 9, 0, 0]) \<noteq> 0"
    "fst (snd (om_variable_get_scalar (wasm scalar_reader) [9, 9, 0, 0])) = 0"
    by (simp_all add: scalar_reader_eq stub_wasm_def byte_at_def)
  show ?thesis
    using v facts readScalar_returns_null [OF v, of 5] readScalar_returns_null [OF v, of 9]
    by simp
qed

section \<open>The backend calls of initialize\<close>

text \<open>
  Claim C8: \<open>initialize\<close> queries the backend's total size only after the header has been
  fetched and classified as trailer-addressed; a legacy header leads to the header fetch
  alone and to no size query; and in trailer-addressed mode the third call fetches the
  trailer at offset \<open>count() - om_trailer_size()\<close>.
\<close>

theorem initialize_size_query:
  "(Count \<in> set (fst (initialize r)) \<longrightarrow>
      (\<exists>h. getBytes (backend r) 0 (om_header_size (wasm r)) = Some h
          \<and> om_header_type (wasm r) h = OM_HEADER_READ_TRAILER
          \<and> take 2 (fst (initialize r)) = [GetBytes 0 (om_header_size (wasm r)), Count]))
 \<and> (\<forall>h. getBytes (backend r) 0 (om_header_size (wasm r)) = Some h
          \<and> om_header_type (wasm r) h = OM_HEADER_LEGACY
       \<longrightarrow> initialize r = ([GetBytes 0 (om_header_size (wasm r))],
               r\<lparr>offsetSize := None, variable := Some (om_variable_init (wasm r) h),
                 variableData := Some h, variableDataPtr := Some ()\<rparr>, None))
 \<and> (\<forall>h fileSize. getBytes (backend r) 0 (om_header_size (wasm r)) = Some h
          \<and> om_header_type (wasm r) h = OM_HEADER_READ_TRAILER
          \<and> count (backend r) = Some fileSize
       \<longrightarrow> take 3 (fst (initialize r)) =
             [GetBytes 0 (om_header_size (wasm r)), Count,
              GetBytes (fileSize - om_trailer_size (wasm r)) (om_trailer_size (wasm r))])"
  by (auto simp: initialize_def finish_initialize_def Let_def split: option.splits)

lemma tree_init:
  "initialize (new_OmFileReader (FileBackend tree_file) stub_wasm) =
     ([GetBytes 0 4, Count, GetBytes 26 2, GetBytes 4 8], tree_reader, None)"
  by (simp add: tree_reader_eq initialize_def finish_initialize_def new_OmFileReader_def
      FileBackend_def js_slice_def tree_file_def stub_wasm_def byte_at_def Let_def)

lemma array_init:
  "initialize (new_OmFileReader (FileBackend array_file) stub_wasm) =
     ([GetBytes 0 4], array_reader, None)"
  by (simp add: array_reader_eq initialize_def finish_initialize_def new_OmFileReader_def
      FileBackend_def js_slice_def array_file_def stub_wasm_def byte_at_def Let_def)

theorem initialize_size_query_witness:
  "Count \<in> set (fst (initialize (new_OmFileReader (FileBackend tree_file) stub_wasm)))
   \<and> getBytes (FileBackend tree_file) 0 4 = Some [2, 0, 0, 0]
   \<and> om_header_type stub_wasm [2, 0, 0, 0] = 2
   \<and> count (FileBackend tree_file) = Some 28
   \<and> take 2 (fst (initialize (new_OmFileReader (FileBackend tree_file) stub_wasm)))
       = [GetBytes 0 4, Count]
   \<and> take 3 (fst (initialize (new_OmFileReader (FileBackend tree_file) stub_wasm)))
       = [GetBytes 0 4, Count, GetBytes (28 - 2) 2]
   \<and> getBytes (FileBackend array_file) 0 4 = Some [1, 20, 0, 0]
   \<and> om_header_type stub_wasm [1, 20, 0, 0] = 1
   \<and> fst (initialize (new_OmFileReader (FileBackend array_file) stub_wasm)) = [GetBytes 0 4]"
proof -
  let ?t = "new_OmFileReader (FileBackend tree_file) stub_wasm"
  let ?a = "new_OmFileReader (FileBackend array_file) stub_wasm"
  have c: "Count \<in> set (fst (initialize ?t))" by (simp add: tree_init)
  have ht: "getBytes (backend ?t) 0 (om_header_size (wasm ?t)) = Some [2, 0, 0, 0]
            \<and> om_header_type (wasm ?t) [2, 0, 0, 0] = OM_HEADER_READ_TRAILER
            \<and> count (backend ?t) = Some 28"
    by (simp add: new_OmFileReader_def FileBackend_def js_slice_def tree_file_def
        stub_wasm_def byte_at_def)
  have ha: "getBytes (backend ?a) 0 (om_header_size (wasm ?a)) = Some [1, 20, 0, 0]
            \<and> om_header_type (wasm ?a) [1, 20, 0, 0] = OM_HEADER_LEGACY"
    by (simp add: new_OmFileReader_def FileBackend_def js_slice_def array_file_def
        stub_wasm_def byte_at_def)
  from initialize_size_query [of ?t] c ht
  have t2: "take 2 (fst (initialize ?t)) = [GetBytes 0 (om_header_size (wasm ?t)), Count]"
    and t3: "take 3 (fst (initialize ?t)) =
             [GetBytes 0 (om_header_size (wasm ?t)), Count,
              GetBytes (28 - om_trailer_size (wasm ?t)) (om_trailer_size (wasm ?t))]"
    by blast+
  from initialize_size_query [of ?a] ha
  have a1: "fst (initialize ?a) = [GetBytes 0 (om_header_size (wasm ?a))]"
    by (metis fst_conv)
  have sz: "om_header_size stub_wasm = 4" "om_trailer_size stub_wasm = 2"
    by (simp_all add: stub_wasm_def)
  show ?thesis
    using c ht ha t2 t3 a1 by (simp add: sz new_OmFileReader_def)
qed

section \<open>A request with the wrong data type\<close>

text \<open>
  Claim C10: on an initialized reader, \<open>read\<close> and \<open>readInto\<close> with a data type other
  than the variable's own fail with the invalid-data-type error; no backend call has been
  issued and the caller's array is as it was.
\<close>

theorem read_type_mismatch:
  assumes "variable r = Some v" and "om_variable_get_type (wasm r) v \<noteq> dt"
  shows "read maxLength r dt dimRanges ioSizeMax ioSizeMerge
           = Some ([], Inl (InvalidDataType (om_variable_get_type (wasm r) v) dt))
       \<and> readInto r dt output dimRanges ioSizeMax ioSizeMerge
           = Some ([], output, Some (InvalidDataType (om_variable_get_type (wasm r) v) dt))"
  using assms by (simp add: read_def readInto_def dataType_def)

theorem read_type_mismatch_witness:
  "variable array_reader = Some [1, 20, 0, 0]
   \<and> om_variable_get_type (wasm array_reader) [1, 20, 0, 0] \<noteq> 21
   \<and> read stub_max_length array_reader 21 [\<lparr>range_start = 0, range_end = 2\<rparr>, \<lparr>range_start = 0, range_end = 2\<rparr>]
        65536 512 = Some ([], Inl (InvalidDataType 20 21))
   \<and> readInto array_reader 21 \<lparr>kind = Float64ArrayK, elems = [7, 7, 7, 7]\<rparr>
        [\<lparr>range_start = 0, range_end = 2\<rparr>, \<lparr>range_start = 0, range_end = 2\<rparr>] 65536 512
        = Some ([], \<lparr>kind = Float64ArrayK, elems = [7, 7, 7, 7]\<rparr>, Some (InvalidDataType 20 21))"
proof -
  have v: "variable array_reader = Some [1, 20, 0, 0]"
    by (simp add: array_reader_eq)
  have t: "om_variable_get_type (wasm array_reader) [1, 20, 0, 0] = 20"
    by (simp add: array_reader_eq stub_wasm_def byte_at_def)
  have ne: "om_variable_get_type (wasm array_reader) [1, 20, 0, 0] \<noteq> 21"
    by (simp add: t)
  show ?thesis
    using v ne read_type_mismatch [OF v ne] by (simp add: t)
qed

section \<open>Accessors of a reader that is not initialized\<close>







section \<open>The checks of read and readInto\<close>

text \<open>
  \<open>getDimensions\<close> rebuilds the library's dimension table, the \<open>reduce\<close> of the source
  is the product of the extents, and the validation loop stops at the first dimension whose
  range fails the test.
\<close>

lemma getDimensions_eq:
  assumes "variable r = Some v"
  shows "getDimensions r = Inr (om_variable_get_dimensions (wasm r) v)"
proof -
  have "map (\<lambda>i. om_variable_get_dimension_value (wasm r) v i)
          [0..<om_variable_get_dimension_count (wasm r) v]
        = om_variable_get_dimensions (wasm r) v"
    by (rule nth_equalityI)
      (simp_all add: om_variable_get_dimension_count_def om_variable_get_dimension_value_def)
  then show ?thesis
    using assms by (simp add: getDimensions_def Let_def)
qed

lemma foldl_mult_prod_list: "foldl (\<lambda>a b. a * b) (c::int) xs = c * prod_list xs"
  by (induction xs arbitrary: c) (simp_all add: mult.assoc)

lemma foldl_extents:
  "foldl (\<lambda>a b. a * b) 1 (map (\<lambda>range. range_end range - range_start range) dimRanges)
     = extent_product dimRanges"
  by (simp add: foldl_mult_prod_list extent_product_def range_extent_def[abs_def])

lemma fill_arrays_invalid:
  assumes "\<exists>i\<in>set idx. invalid_range (dimRanges ! i) (fileDims ! i)"
  shows "\<exists>i\<in>set idx. invalid_range (dimRanges ! i) (fileDims ! i)
           \<and> fill_arrays dimRanges fileDims outDims cubeOff idx = Inl (InvalidRange i)"
  using assms
proof (induction idx)
  case Nil
  then show ?case by simp
next
  case (Cons j idx)
  show ?case
  proof (cases "invalid_range (dimRanges ! j) (fileDims ! j)")
    case True
    then show ?thesis by (simp add: invalid_range_def)
  next
    case False
    with Cons.prems have "\<exists>i\<in>set idx. invalid_range (dimRanges ! i) (fileDims ! i)" by auto
    from Cons.IH [OF this] obtain i where
      "i \<in> set idx" "invalid_range (dimRanges ! i) (fileDims ! i)"
      "fill_arrays dimRanges fileDims outDims cubeOff idx = Inl (InvalidRange i)" by blast
    with False show ?thesis by (auto simp: invalid_range_def)
  qed
qed

lemma fill_arrays_error:
  assumes "fill_arrays dimRanges fileDims outDims cubeOff idx = Inl e"
  shows "\<exists>i\<in>set idx. e = InvalidRange i \<and> invalid_range (dimRanges ! i) (fileDims ! i)"
  using assms
  by (induction idx) (auto simp: invalid_range_def split: if_splits sum.splits prod.splits)


lemma fill_arrays_upt_invalid:
  assumes "\<exists>i<n. invalid_range (dimRanges ! i) (fileDims ! i)"
  shows "\<exists>i<n. invalid_range (dimRanges ! i) (fileDims ! i)
           \<and> fill_arrays dimRanges fileDims outDims cubeOff [0..<n] = Inl (InvalidRange i)"
proof -
  from assms have "\<exists>i\<in>set [0..<n]. invalid_range (dimRanges ! i) (fileDims ! i)" by auto
  from fill_arrays_invalid [OF this, of outDims cubeOff] show ?thesis by auto
qed

lemma extent_product_zero:
  assumes "i < length dimRanges" and "range_start (dimRanges ! i) = range_end (dimRanges ! i)"
  shows "extent_product dimRanges = 0"
proof -
  have "range_extent (dimRanges ! i) \<in> set (map range_extent dimRanges)"
    using assms(1) by simp
  moreover have "range_extent (dimRanges ! i) = 0"
    using assms(2) by (simp add: range_extent_def)
  ultimately show ?thesis
    by (simp add: extent_product_def prod_list_zero_iff del: set_map)
qed

text \<open>
  The only errors of \<open>decode\<close> are a backend failure, a failed chunk decode and a
  data-read error, and what it computes depends on the caller's array only through the
  array's constructor and length.
\<close>

lemma data_read_loop_errors:
  assumes "data_read_loop w b dec indexData indexCount dr mem err calls = Some res"
  shows "\<forall>e. snd res = Inl e \<longrightarrow> e = BackendFailure \<or> (\<exists>c. e = DecodeChunksFailed c)"
  using assms
  by (rule data_read_loop.raw_induct [rotated])
    (auto simp: Let_def split: prod.splits if_splits option.splits)

lemma index_read_loop_errors:
  assumes "index_read_loop w b dec ir mem err calls = Some res"
  shows "\<forall>e. snd res = Inl e \<longrightarrow>
           e = BackendFailure \<or> (\<exists>c. e = DecodeChunksFailed c) \<or> (\<exists>c. e = DataReadError c)"
  using assms
proof (rule index_read_loop.raw_induct [rotated], goal_cases)
  case (1 f w b dec ir mem err calls res)
  show ?case
    using 1(2)
    by (auto simp: Let_def split: prod.splits if_splits option.splits sum.splits
        Option.bind_splits dest: data_read_loop_errors 1(1))
qed

lemma decode_errors:
  assumes "decode w b dec output = Some (calls, out1, Some e)"
  shows "e = BackendFailure \<or> (\<exists>c. e = DecodeChunksFailed c) \<or> (\<exists>c. e = DataReadError c)"
  using assms
  by (auto simp: decode_def Let_def split: option.splits sum.splits prod.splits
      dest: index_read_loop_errors)

lemma decode_same_shape:
  assumes "kind a = kind b" and "length (elems a) = length (elems b)"
  shows "(case decode w bk dec a of
            None \<Rightarrow> None
          | Some (calls, out1, None) \<Rightarrow> Some (calls, Inr out1)
          | Some (calls, out1, Some e) \<Rightarrow> Some (calls, Inl e))
       = (case decode w bk dec b of
            None \<Rightarrow> None
          | Some (calls, out1, None) \<Rightarrow> Some (calls, Inr out1)
          | Some (calls, out1, Some e) \<Rightarrow> Some (calls, Inl e))"
  using assms
  by (auto simp: decode_def Let_def byteLength_def copyToTypedArray_def
      split: option.splits sum.splits prod.splits)

text \<open>
  \<open>readInto\<close> and \<open>read\<close> on an initialized reader and with the variable's own data
  type, as the sequence of their remaining checks.
\<close>

lemma readInto_checked:
  assumes "variable r = Some v" and "om_variable_get_type (wasm r) v = dt"
  shows "readInto r dt output dimRanges ioSizeMax ioSizeMerge =
    (let fileDims = om_variable_get_dimensions (wasm r) v
     in if length fileDims \<noteq> length dimRanges
        then Some ([], output, Some (MismatchedDimensions (length fileDims) (length dimRanges)))
        else if int (length (elems output)) < extent_product dimRanges
        then Some ([], output,
               Some (OutputArrayTooSmall (extent_product dimRanges) (length (elems output))))
        else
          (case fill_arrays dimRanges fileDims (map range_extent dimRanges)
                  (replicate (length dimRanges) 0) [0..<length dimRanges] of
             Inl e \<Rightarrow> Some ([], output, Some e)
           | Inr (readOffset, readCount, cubeOffset, cubeDimension) \<Rightarrow>
               (case om_decoder_init (wasm r) v (int (length dimRanges)) readOffset
                       readCount cubeOffset cubeDimension ioSizeMerge ioSizeMax of
                  (err, dec) \<Rightarrow>
                    if err \<noteq> ERROR_OK then Some ([], output, Some (DecoderInitFailed err))
                    else decode (wasm r) (backend r) dec output)))"
  using assms
  by (simp add: readInto_def dataType_def getDimensions_eq foldl_extents Let_def
      range_extent_def[abs_def])

lemma typed_array_limit_nonneg: "\<not> typed_array_limit maxLength k < 0"
  by (simp add: typed_array_limit_def)

lemma stub_typed_array_limit: "typed_array_limit stub_max_length k = 4294967295"
  by (simp add: typed_array_limit_def stub_max_length_def)

lemma read_checked:
  assumes "variable r = Some v" and "om_variable_get_type (wasm r) v = dt"
  shows "read maxLength r dt dimRanges ioSizeMax ioSizeMerge =
    (case output_kind dt of
       None \<Rightarrow> Some ([], Inl UnsupportedDataType)
     | Some k \<Rightarrow>
         if extent_product dimRanges < 0
            \<or> extent_product dimRanges > typed_array_limit maxLength k
         then Some ([], Inl InvalidTypedArrayLength)
         else
           (case readInto r dt \<lparr>kind = k, elems = replicate (nat (extent_product dimRanges)) 0\<rparr>
                   dimRanges ioSizeMax ioSizeMerge of
              None \<Rightarrow> None
            | Some (calls, out1, Some e) \<Rightarrow> Some (calls, Inl e)
            | Some (calls, out1, None) \<Rightarrow> Some (calls, Inr out1)))"
  using assms
  by (simp add: read_def dataType_def foldl_extents Let_def new_TypedArray_def
      split: option.splits)

section \<open>Running the reader on the stand-in module\<close>

lemma stub_wasm_sel:
  "om_header_size stub_wasm = 4"
  "om_header_type stub_wasm = (\<lambda>h. byte_at h 0)"
  "om_trailer_size stub_wasm = 2"
  "om_trailer_read stub_wasm = (\<lambda>t. if length t = 2 \<and> byte_at t 1 \<noteq> 0 then Some (byte_at t 0, byte_at t 1) else None)"
  "om_variable_init stub_wasm = (\<lambda>d. d)"
  "om_variable_get_type stub_wasm = (\<lambda>v. byte_at v 1)"
  "om_variable_get_compression stub_wasm = (\<lambda>v. 0)"
  "om_variable_get_scale_factor stub_wasm = (\<lambda>v. 1)"
  "om_variable_get_add_offset stub_wasm = (\<lambda>v. 0)"
  "om_variable_get_dimensions stub_wasm = (\<lambda>v. if byte_at v 1 \<ge> 12 then [5, 5] else [])"
  "om_variable_get_chunks stub_wasm = (\<lambda>v. if byte_at v 1 \<ge> 12 then [2, 2] else [])"
  "om_variable_get_name stub_wasm = (\<lambda>v. stub_name (byte_at v 2))"
  "om_variable_get_children_count stub_wasm = (\<lambda>v. byte_at v 3)"
  "om_variable_get_children stub_wasm = (\<lambda>v index cnt. if 0 \<le> index \<and> index + cnt \<le> byte_at v 3 then Some (byte_at v (nat (4 + 2 * index)), byte_at v (nat (5 + 2 * index))) else None)"
  "om_variable_get_scalar stub_wasm = (\<lambda>v. if byte_at v 0 = 9 then (1, 0, 0) else (0, 8, 4))"
  "getValue_int stub_wasm = (\<lambda>p t. 42)"
  "getValue_float stub_wasm = (\<lambda>p t. 3 / 2)"
  "om_decoder_init stub_wasm = (\<lambda>v n readOffset readCount cubeOffset cubeDim merge mx. (0, ()))"
  "om_decoder_init_index_read stub_wasm = (\<lambda>d. 0)"
  "om_decoder_init_data_read stub_wasm = (\<lambda>ir. 0)"
  "om_decoder_read_buffer_size stub_wasm = (\<lambda>d. 16)"
  "om_decoder_next_index_read stub_wasm = (\<lambda>d ir. (ir < 1, Suc ir))"
  "ir_offset stub_wasm = (\<lambda>ir. 4)"
  "ir_count stub_wasm = (\<lambda>ir. 2)"
  "om_decoder_next_data_read stub_wasm = (\<lambda>d dr indexData indexCount err. (dr < 1, Suc dr, err))"
  "dr_offset stub_wasm = (\<lambda>dr. 6)"
  "dr_count stub_wasm = (\<lambda>dr. 4)"
  "om_decoder_decode_chunks stub_wasm = (\<lambda>d dr dataBlock dataCount mem err. (True, map (\<lambda>b. real_of_int (uint b)) dataBlock, err))"
  "malloc_output stub_wasm = (\<lambda>n chunkBufferSize. [])"
  "heap_elem stub_wasm = (\<lambda>mem k i. if i < length mem then mem ! i else 0)"
  by (simp_all add: stub_wasm_def)

lemma stub_data_read_loop_done:
  "data_read_loop stub_wasm b d i c (Suc 0) mem err calls = Some (calls, Inr (mem, err))"
  by (subst data_read_loop.simps) (simp add: stub_wasm_sel)

lemma stub_data_read_loop:
  assumes "getBytes b 6 4 = Some blk"
  shows "data_read_loop stub_wasm b d i c 0 mem err calls
           = Some (calls @ [GetBytes 6 4], Inr (map (\<lambda>x. real_of_int (uint x)) blk, err))"
  using assms
  by (subst data_read_loop.simps) (simp add: stub_wasm_sel stub_data_read_loop_done)

lemma stub_index_read_loop_done:
  "index_read_loop stub_wasm b d (Suc 0) mem err calls = Some (calls, Inr (mem, err))"
  by (subst index_read_loop.simps) (simp add: stub_wasm_sel)

lemma stub_index_read_loop:
  assumes "getBytes b 4 2 = Some idx" and "getBytes b 6 4 = Some blk"
  shows "index_read_loop stub_wasm b d 0 mem 0 calls
           = Some (calls @ [GetBytes 4 2, GetBytes 6 4],
                   Inr (map (\<lambda>x. real_of_int (uint x)) blk, 0))"
  using assms
  by (subst index_read_loop.simps)
    (simp add: stub_wasm_sel stub_data_read_loop stub_index_read_loop_done)

lemma stub_decode:
  assumes "getBytes b 4 2 = Some idx" and "getBytes b 6 4 = Some blk"
  shows "decode stub_wasm b d output
           = Some ([GetBytes 4 2, GetBytes 6 4],
                   output\<lparr>elems := map (\<lambda>i. if i < length blk then real_of_int (uint (blk ! i)) else 0)
                                      [0..<length (elems output)]\<rparr>, None)"
  by (simp add: decode_def Let_def stub_wasm_sel copyToTypedArray_def
      stub_index_read_loop [OF assms] cong: if_cong)

lemma array_file_blocks:
  "getBytes (FileBackend array_file) 4 2 = Some [6, 4]"
  "getBytes (FileBackend array_file) 6 4 = Some [0, 1, 5, 6]"
  "getBytes (FileBackend int64_file) 4 2 = Some [6, 4]"
  "getBytes (FileBackend int64_file) 6 4 = Some [0, 1, 5, 6]"
  by (simp_all add: FileBackend_def js_slice_def array_file_def int64_file_def)

lemma array_reader_facts:
  "variable array_reader = Some [1, 20, 0, 0]"
  "om_variable_get_type (wasm array_reader) [1, 20, 0, 0] = 20"
  "om_variable_get_dimensions (wasm array_reader) [1, 20, 0, 0] = [5, 5]"
  "wasm array_reader = stub_wasm"
  "backend array_reader = FileBackend array_file"
  "om_variable_get_type stub_wasm [1, 20, 0, 0] = 20"
  "om_variable_get_dimensions stub_wasm [1, 20, 0, 0] = [5, 5]"
  by (simp_all add: array_reader_eq stub_wasm_sel byte_at_def)

lemma upt2: "[0..<2] = [0, Suc 0]" by (simp add: upt_rec)
lemma upt4: "[0..<4] = [0, Suc 0, 2, 3]" by (simp add: upt_rec)

lemma array_readInto_2x2:
  "readInto array_reader 20 \<lparr>kind = Float32ArrayK, elems = [9, 9, 9, 9]\<rparr>
     [\<lparr>range_start = 0, range_end = 2\<rparr>, \<lparr>range_start = 0, range_end = 2\<rparr>] 65536 512
   = Some ([GetBytes 4 2, GetBytes 6 4], \<lparr>kind = Float32ArrayK, elems = [0, 1, 5, 6]\<rparr>, None)"
  unfolding readInto_checked [OF array_reader_facts(1,2)] array_reader_facts
  by (simp add: extent_product_def range_extent_def upt2 upt4 stub_wasm_sel byte_at_def
      stub_decode [OF array_file_blocks(1,2)] Let_def)

lemma array_read_2x2:
  "read stub_max_length array_reader 20
     [\<lparr>range_start = 0, range_end = 2\<rparr>, \<lparr>range_start = 0, range_end = 2\<rparr>] 65536 512
   = Some ([GetBytes 4 2, GetBytes 6 4], Inr \<lparr>kind = Float32ArrayK, elems = [0, 1, 5, 6]\<rparr>)"
  unfolding read_checked [OF array_reader_facts(1,2)]
    readInto_checked [OF array_reader_facts(1,2)] array_reader_facts
  by (simp add: output_kind_def extent_product_def range_extent_def upt2 upt4 stub_wasm_sel
      byte_at_def stub_typed_array_limit
      stub_decode [OF array_file_blocks(1,2)] Let_def)

lemma int64_reader_facts:
  "variable int64_reader = Some [1, 18, 0, 0]"
  "om_variable_get_type (wasm int64_reader) [1, 18, 0, 0] = 18"
  "om_variable_get_dimensions (wasm int64_reader) [1, 18, 0, 0] = [5, 5]"
  "wasm int64_reader = stub_wasm"
  "backend int64_reader = FileBackend int64_file"
  by (simp_all add: int64_reader_eq stub_wasm_sel byte_at_def)

lemmas array_request_simps =
  extent_product_def range_extent_def upt2 upt4 stub_wasm_sel byte_at_def Let_def output_kind_def
  stub_typed_array_limit

section \<open>A request with an empty range\<close>

text \<open>
  Claim C1 as stated: a request in which some range has \<open>start = end\<close>, all ranges being
  within the file's dimensions, succeeds with an output of zero elements. The reader of
  \<open>array_file\<close> has dimensions \<open>[5, 5]\<close>; \<open>read\<close> with the ranges \<open>[0, 0)\<close> and
  \<open>[0, 2)\<close> fails with the invalid-range error for dimension 0.
\<close>

theorem empty_range_counterexample:
  "getDimensions array_reader = Inr [5, 5]
   \<and> read stub_max_length array_reader 20
        [\<lparr>range_start = 0, range_end = 0\<rparr>, \<lparr>range_start = 0, range_end = 2\<rparr>] 65536 512
      = Some ([], Inl (InvalidRange 0))"
  unfolding read_checked [OF array_reader_facts(1,2)]
    readInto_checked [OF array_reader_facts(1,2)]
    getDimensions_eq [OF array_reader_facts(1)] array_reader_facts
  by (simp add: array_request_simps)

text \<open>
  Claim C1 as amended: for every initialized reader and every request with the variable's
  data type and rank in which every range satisfies \<open>0 \<le> start \<le> end \<le> extent\<close> and
  some range has \<open>start = end\<close>, \<open>readInto\<close> fails with the invalid-range error for a
  dimension whose range is empty, and so does \<open>read\<close> whenever the data type is one it
  allocates an array for; no backend call is issued and the caller's array is untouched.
\<close>

theorem empty_range_is_rejected:
  assumes "variable r = Some v" and "om_variable_get_type (wasm r) v = dt"
    and "length dimRanges = length (om_variable_get_dimensions (wasm r) v)"
    and "\<forall>i<length dimRanges.
           0 \<le> range_start (dimRanges ! i)
           \<and> range_start (dimRanges ! i) \<le> range_end (dimRanges ! i)
           \<and> range_end (dimRanges ! i) \<le> om_variable_get_dimensions (wasm r) v ! i"
    and "\<exists>i<length dimRanges. range_start (dimRanges ! i) = range_end (dimRanges ! i)"
  shows "\<exists>i<length dimRanges.
           range_start (dimRanges ! i) = range_end (dimRanges ! i)
           \<and> readInto r dt output dimRanges ioSizeMax ioSizeMerge
               = Some ([], output, Some (InvalidRange i))
           \<and> (output_kind dt \<noteq> None \<longrightarrow>
                read maxLength r dt dimRanges ioSizeMax ioSizeMerge = Some ([], Inl (InvalidRange i)))"
proof -
  let ?dims = "om_variable_get_dimensions (wasm r) v"
  let ?fill = "fill_arrays dimRanges ?dims (map range_extent dimRanges)
                 (replicate (length dimRanges) 0) [0..<length dimRanges]"
  from assms(5) obtain j where j: "j < length dimRanges"
    "range_start (dimRanges ! j) = range_end (dimRanges ! j)" by blast
  then have zero: "extent_product dimRanges = 0" by (rule extent_product_zero)
  from j have "\<exists>i<length dimRanges. invalid_range (dimRanges ! i) (?dims ! i)"
    by (auto simp: invalid_range_def)
  from fill_arrays_upt_invalid [OF this] obtain i where
    i: "i < length dimRanges" "invalid_range (dimRanges ! i) (?dims ! i)"
       "?fill = Inl (InvalidRange i)" by blast
  from i(1,2) assms(4) have eq: "range_start (dimRanges ! i) = range_end (dimRanges ! i)"
    by (auto simp: invalid_range_def)
  have ri: "readInto r dt out dimRanges ioSizeMax ioSizeMerge
              = Some ([], out, Some (InvalidRange i))" for out
    using assms(3) zero i(3) by (simp add: readInto_checked [OF assms(1,2)] Let_def)
  have "read maxLength r dt dimRanges ioSizeMax ioSizeMerge = Some ([], Inl (InvalidRange i))"
    if "output_kind dt \<noteq> None"
    using that zero
    by (auto simp: read_checked [OF assms(1,2)] ri typed_array_limit_nonneg)
  with i(1) eq ri show ?thesis by blast
qed

theorem empty_range_is_rejected_witness:
  "variable array_reader = Some [1, 20, 0, 0]
   \<and> om_variable_get_type (wasm array_reader) [1, 20, 0, 0] = 20
   \<and> om_variable_get_dimensions (wasm array_reader) [1, 20, 0, 0] = [5, 5]
   \<and> readInto array_reader 20 \<lparr>kind = Float32ArrayK, elems = []\<rparr>
        [\<lparr>range_start = 0, range_end = 2\<rparr>, \<lparr>range_start = 3, range_end = 3\<rparr>] 65536 512
      = Some ([], \<lparr>kind = Float32ArrayK, elems = []\<rparr>, Some (InvalidRange 1))
   \<and> read stub_max_length array_reader 20
        [\<lparr>range_start = 0, range_end = 2\<rparr>, \<lparr>range_start = 3, range_end = 3\<rparr>] 65536 512
      = Some ([], Inl (InvalidRange 1))"
proof -
  let ?rs = "[\<lparr>range_start = 0, range_end = 2\<rparr>, \<lparr>range_start = 3, range_end = 3\<rparr>]"
  let ?out = "\<lparr>kind = Float32ArrayK, elems = []\<rparr>"
  note f = array_reader_facts
  have len: "length ?rs = length (om_variable_get_dimensions (wasm array_reader) [1, 20, 0, 0])"
    by (simp add: f)
  have inb: "\<forall>i<length ?rs.
           0 \<le> range_start (?rs ! i)
           \<and> range_start (?rs ! i) \<le> range_end (?rs ! i)
           \<and> range_end (?rs ! i) \<le> om_variable_get_dimensions (wasm array_reader) [1, 20, 0, 0] ! i"
    by (simp add: f(3) less_Suc_eq nth_Cons')
  have emp: "\<exists>i<length ?rs. range_start (?rs ! i) = range_end (?rs ! i)"
    by (rule exI [of _ 1]) simp
  from empty_range_is_rejected [OF f(1) f(2) len inb emp, of ?out 65536 512]
  obtain i where i: "i < length ?rs" "range_start (?rs ! i) = range_end (?rs ! i)"
    "readInto array_reader 20 ?out ?rs 65536 512 = Some ([], ?out, Some (InvalidRange i))"
    "output_kind 20 \<noteq> None \<longrightarrow> read stub_max_length array_reader 20 ?rs 65536 512 = Some ([], Inl (InvalidRange i))"
    by blast
  from i(1,2) have "i = 1" by (auto simp: less_Suc_eq)
  with i(3,4) show ?thesis by (simp add: f output_kind_def)
qed

section \<open>Rank and range errors\<close>

text \<open>
  Claim C5 as stated: a request whose rank differs from the variable's fails with the
  dimension-mismatch error, and a request in which some range ends beyond the dimension or is
  inverted fails with the range error. The reader of \<open>array_file\<close> has dimensions
  \<open>[5, 5]\<close>; \<open>readInto\<close> with the ranges \<open>[0, 100)\<close> and \<open>[0, 100)\<close> and an array
  of four elements fails with the too-small error, because the size of the array is checked
  before the ranges are.
\<close>

theorem out_of_bounds_request_counterexample:
  "getDimensions array_reader = Inr [5, 5]
   \<and> readInto array_reader 20 \<lparr>kind = Float32ArrayK, elems = [9, 9, 9, 9]\<rparr>
        [\<lparr>range_start = 0, range_end = 100\<rparr>, \<lparr>range_start = 0, range_end = 100\<rparr>] 65536 512
      = Some ([], \<lparr>kind = Float32ArrayK, elems = [9, 9, 9, 9]\<rparr>,
              Some (OutputArrayTooSmall 10000 4))"
  unfolding readInto_checked [OF array_reader_facts(1,2)]
    getDimensions_eq [OF array_reader_facts(1)] array_reader_facts
  by (simp add: array_request_simps)

text \<open>
  Claim C5 as amended: for every initialized reader and every request with the variable's
  data type, \<open>readInto\<close> fails with the dimension-mismatch error when the rank differs, and,
  when the rank matches and the caller's array holds at least the product of the extents,
  with the invalid-range error for an offending dimension when some range has
  \<open>start < 0\<close>, \<open>end > extent\<close> or \<open>start \<ge> end\<close>. \<open>read\<close> fails in the same two
  ways when the data type is one it allocates an array for and the product of the extents
  is neither negative nor above the limit on the length of a typed array, so that the
  allocation of its array succeeds.
\<close>

theorem request_rank_and_range_errors:
  assumes "variable r = Some v" and "om_variable_get_type (wasm r) v = dt"
  shows "(length dimRanges \<noteq> length (om_variable_get_dimensions (wasm r) v) \<longrightarrow>
            readInto r dt output dimRanges ioSizeMax ioSizeMerge
              = Some ([], output,
                      Some (MismatchedDimensions
                              (length (om_variable_get_dimensions (wasm r) v))
                              (length dimRanges))))
       \<and> (length dimRanges = length (om_variable_get_dimensions (wasm r) v)
            \<and> extent_product dimRanges \<le> int (length (elems output))
            \<and> (\<exists>i<length dimRanges.
                  invalid_range (dimRanges ! i) (om_variable_get_dimensions (wasm r) v ! i))
          \<longrightarrow> (\<exists>i<length dimRanges.
                  invalid_range (dimRanges ! i) (om_variable_get_dimensions (wasm r) v ! i)
                  \<and> readInto r dt output dimRanges ioSizeMax ioSizeMerge
                      = Some ([], output, Some (InvalidRange i))))
       \<and> (output_kind dt = Some k \<and> 0 \<le> extent_product dimRanges
            \<and> extent_product dimRanges \<le> typed_array_limit maxLength k
            \<and> length dimRanges \<noteq> length (om_variable_get_dimensions (wasm r) v)
          \<longrightarrow> read maxLength r dt dimRanges ioSizeMax ioSizeMerge
                = Some ([], Inl (MismatchedDimensions
                                   (length (om_variable_get_dimensions (wasm r) v))
                                   (length dimRanges))))
       \<and> (output_kind dt = Some k \<and> 0 \<le> extent_product dimRanges
            \<and> extent_product dimRanges \<le> typed_array_limit maxLength k
            \<and> length dimRanges = length (om_variable_get_dimensions (wasm r) v)
            \<and> (\<exists>i<length dimRanges.
                  invalid_range (dimRanges ! i) (om_variable_get_dimensions (wasm r) v ! i))
          \<longrightarrow> (\<exists>i<length dimRanges.
                  invalid_range (dimRanges ! i) (om_variable_get_dimensions (wasm r) v ! i)
                  \<and> read maxLength r dt dimRanges ioSizeMax ioSizeMerge
                      = Some ([], Inl (InvalidRange i))))"
proof -
  let ?dims = "om_variable_get_dimensions (wasm r) v"
  let ?fill = "fill_arrays dimRanges ?dims (map range_extent dimRanges)
                 (replicate (length dimRanges) 0) [0..<length dimRanges]"
  have rank: "length dimRanges \<noteq> length ?dims \<Longrightarrow>
      readInto r dt out dimRanges ioSizeMax ioSizeMerge
        = Some ([], out, Some (MismatchedDimensions (length ?dims) (length dimRanges)))" for out
    by (simp add: readInto_checked [OF assms] Let_def)
  have range: "\<exists>i<length dimRanges. invalid_range (dimRanges ! i) (?dims ! i)
        \<and> readInto r dt out dimRanges ioSizeMax ioSizeMerge = Some ([], out, Some (InvalidRange i))"
    if len: "length dimRanges = length ?dims"
      and big: "extent_product dimRanges \<le> int (length (elems out))"
      and inv: "\<exists>i<length dimRanges. invalid_range (dimRanges ! i) (?dims ! i)" for out
  proof -
    from fill_arrays_upt_invalid [OF inv] obtain i where
      i: "i < length dimRanges" "invalid_range (dimRanges ! i) (?dims ! i)"
         "?fill = Inl (InvalidRange i)" by blast
    have "readInto r dt out dimRanges ioSizeMax ioSizeMerge = Some ([], out, Some (InvalidRange i))"
      using len big i(3) by (simp add: readInto_checked [OF assms] Let_def)
    with i show ?thesis by blast
  qed
  have read_rank: "read maxLength r dt dimRanges ioSizeMax ioSizeMerge
        = Some ([], Inl (MismatchedDimensions (length ?dims) (length dimRanges)))"
    if "output_kind dt = Some k" "0 \<le> extent_product dimRanges"
       "extent_product dimRanges \<le> typed_array_limit maxLength k"
       "length dimRanges \<noteq> length ?dims"
    using that by (auto simp: read_checked [OF assms] rank)
  have read_range: "\<exists>i<length dimRanges. invalid_range (dimRanges ! i) (?dims ! i)
        \<and> read maxLength r dt dimRanges ioSizeMax ioSizeMerge = Some ([], Inl (InvalidRange i))"
    if k: "output_kind dt = Some k" and nn: "0 \<le> extent_product dimRanges"
      and lim: "extent_product dimRanges \<le> typed_array_limit maxLength k"
      and len: "length dimRanges = length ?dims"
      and inv: "\<exists>i<length dimRanges. invalid_range (dimRanges ! i) (?dims ! i)"
  proof -
    let ?out = "\<lparr>kind = k, elems = replicate (nat (extent_product dimRanges)) 0\<rparr>"
    have "extent_product dimRanges \<le> int (length (elems ?out))" using nn by simp
    from range [OF len this inv] obtain i where
      i: "i < length dimRanges" "invalid_range (dimRanges ! i) (?dims ! i)"
         "readInto r dt ?out dimRanges ioSizeMax ioSizeMerge = Some ([], ?out, Some (InvalidRange i))"
      by blast
    have "read maxLength r dt dimRanges ioSizeMax ioSizeMerge = Some ([], Inl (InvalidRange i))"
      using nn lim by (simp add: read_checked [OF assms] k i(3))
    with i show ?thesis by blast
  qed
  show ?thesis
    using rank range read_rank read_range by blast
qed

theorem request_rank_and_range_errors_witness:
  "variable array_reader = Some [1, 20, 0, 0]
   \<and> om_variable_get_type (wasm array_reader) [1, 20, 0, 0] = 20
   \<and> om_variable_get_dimensions (wasm array_reader) [1, 20, 0, 0] = [5, 5]
   \<and> readInto array_reader 20 \<lparr>kind = Float32ArrayK, elems = [9]\<rparr>
        [\<lparr>range_start = 0, range_end = 1\<rparr>, \<lparr>range_start = 0, range_end = 1\<rparr>,
         \<lparr>range_start = 0, range_end = 1\<rparr>] 65536 512
      = Some ([], \<lparr>kind = Float32ArrayK, elems = [9]\<rparr>, Some (MismatchedDimensions 2 3))
   \<and> read stub_max_length array_reader 20
        [\<lparr>range_start = 0, range_end = 1\<rparr>, \<lparr>range_start = 0, range_end = 1\<rparr>,
         \<lparr>range_start = 0, range_end = 1\<rparr>] 65536 512
      = Some ([], Inl (MismatchedDimensions 2 3))
   \<and> readInto array_reader 20 \<lparr>kind = Float32ArrayK, elems = [9, 9, 9, 9, 9, 9]\<rparr>
        [\<lparr>range_start = 0, range_end = 1\<rparr>, \<lparr>range_start = 0, range_end = 6\<rparr>] 65536 512
      = Some ([], \<lparr>kind = Float32ArrayK, elems = [9, 9, 9, 9, 9, 9]\<rparr>, Some (InvalidRange 1))
   \<and> read stub_max_length array_reader 20
        [\<lparr>range_start = 0, range_end = 1\<rparr>, \<lparr>range_start = 0, range_end = 6\<rparr>] 65536 512
      = Some ([], Inl (InvalidRange 1))"
proof -
  let ?r3 = "[\<lparr>range_start = 0, range_end = 1\<rparr>, \<lparr>range_start = 0, range_end = 1\<rparr>,
              \<lparr>range_start = 0, range_end = 1\<rparr>]"
  let ?r2 = "[\<lparr>range_start = 0, range_end = 1\<rparr>, \<lparr>range_start = 0, range_end = 6\<rparr>]"
  let ?o1 = "\<lparr>kind = Float32ArrayK, elems = [9]\<rparr>"
  let ?o6 = "\<lparr>kind = Float32ArrayK, elems = [9, 9, 9, 9, 9, 9]\<rparr>"
  let ?dims = "om_variable_get_dimensions (wasm array_reader) [1, 20, 0, 0]"
  note f = array_reader_facts
  note t3 = request_rank_and_range_errors
              [OF f(1) f(2), of ?r3 ?o1 65536 512 Float32ArrayK stub_max_length]
  note t2 = request_rank_and_range_errors
              [OF f(1) f(2), of ?r2 ?o6 65536 512 Float32ArrayK stub_max_length]
  have k: "output_kind 20 = Some Float32ArrayK" by (simp add: output_kind_def)
  have p3: "0 \<le> extent_product ?r3"
    "extent_product ?r3 \<le> typed_array_limit stub_max_length Float32ArrayK"
    and p2: "0 \<le> extent_product ?r2"
    "extent_product ?r2 \<le> typed_array_limit stub_max_length Float32ArrayK"
    "extent_product ?r2 \<le> int (length (elems ?o6))"
    by (simp_all add: extent_product_def range_extent_def stub_typed_array_limit)
  have l3: "length ?r3 \<noteq> length ?dims" and l2: "length ?r2 = length ?dims"
    by (simp_all add: f)
  have inv: "\<exists>i<length ?r2. invalid_range (?r2 ! i) (?dims ! i)"
    by (rule exI [of _ 1]) (simp add: f invalid_range_def)
  have only: "i = 1" if "i < length ?r2" "invalid_range (?r2 ! i) (?dims ! i)" for i
    using that by (auto simp: less_Suc_eq f invalid_range_def)
  from t3 l3 k p3 have a:
    "readInto array_reader 20 ?o1 ?r3 65536 512
       = Some ([], ?o1, Some (MismatchedDimensions (length ?dims) (length ?r3)))"
    "read stub_max_length array_reader 20 ?r3 65536 512
       = Some ([], Inl (MismatchedDimensions (length ?dims) (length ?r3)))"
    by blast+
  from t2 l2 k p2 inv obtain i j where b:
    "i < length ?r2" "invalid_range (?r2 ! i) (?dims ! i)"
    "readInto array_reader 20 ?o6 ?r2 65536 512 = Some ([], ?o6, Some (InvalidRange i))"
    "j < length ?r2" "invalid_range (?r2 ! j) (?dims ! j)"
    "read stub_max_length array_reader 20 ?r2 65536 512 = Some ([], Inl (InvalidRange j))"
    by blast
  from only [OF b(1,2)] only [OF b(4,5)] a b(3,6) show ?thesis
    by (simp add: f)
qed

section \<open>The size of the caller's array\<close>

text \<open>
  Claim C6: for every initialized reader and every request with the variable's data type
  and rank, \<open>readInto\<close> fails with the too-small error, before any backend call, when the
  caller's array holds fewer elements than the product of the extents; when it holds at
  least that many, no outcome of \<open>readInto\<close> is the too-small error. The ranges need not
  be within bounds for this.
\<close>

theorem readInto_buffer_too_small:
  assumes "variable r = Some v" and "om_variable_get_type (wasm r) v = dt"
    and "length dimRanges = length (om_variable_get_dimensions (wasm r) v)"
  shows "(int (length (elems output)) < extent_product dimRanges \<longrightarrow>
            readInto r dt output dimRanges ioSizeMax ioSizeMerge
              = Some ([], output,
                      Some (OutputArrayTooSmall (extent_product dimRanges)
                              (length (elems output)))))
       \<and> (\<not> int (length (elems output)) < extent_product dimRanges \<longrightarrow>
            (\<forall>calls out1 e needs has.
               readInto r dt output dimRanges ioSizeMax ioSizeMerge = Some (calls, out1, Some e)
               \<longrightarrow> e \<noteq> OutputArrayTooSmall needs has))"
proof (intro conjI impI allI)
  assume "int (length (elems output)) < extent_product dimRanges"
  then show "readInto r dt output dimRanges ioSizeMax ioSizeMerge
              = Some ([], output,
                      Some (OutputArrayTooSmall (extent_product dimRanges)
                              (length (elems output))))"
    using assms(3) by (simp add: readInto_checked [OF assms(1,2)] Let_def)
next
  fix calls out1 e needs has
  assume big: "\<not> int (length (elems output)) < extent_product dimRanges"
    and res: "readInto r dt output dimRanges ioSizeMax ioSizeMerge = Some (calls, out1, Some e)"
  from res big assms(3) show "e \<noteq> OutputArrayTooSmall needs has"
    by (auto simp: readInto_checked [OF assms(1,2)] Let_def
        split: sum.splits prod.splits if_splits
        dest: fill_arrays_error decode_errors)
qed

theorem readInto_buffer_too_small_witness:
  "variable array_reader = Some [1, 20, 0, 0]
   \<and> om_variable_get_type (wasm array_reader) [1, 20, 0, 0] = 20
   \<and> om_variable_get_dimensions (wasm array_reader) [1, 20, 0, 0] = [5, 5]
   \<and> extent_product [\<lparr>range_start = 0, range_end = 2\<rparr>, \<lparr>range_start = 0, range_end = 2\<rparr>] = 4
   \<and> readInto array_reader 20 \<lparr>kind = Float32ArrayK, elems = [9, 9, 9]\<rparr>
        [\<lparr>range_start = 0, range_end = 2\<rparr>, \<lparr>range_start = 0, range_end = 2\<rparr>] 65536 512
      = Some ([], \<lparr>kind = Float32ArrayK, elems = [9, 9, 9]\<rparr>, Some (OutputArrayTooSmall 4 3))
   \<and> readInto array_reader 20 \<lparr>kind = Float32ArrayK, elems = [9, 9, 9, 9]\<rparr>
        [\<lparr>range_start = 0, range_end = 2\<rparr>, \<lparr>range_start = 0, range_end = 2\<rparr>] 65536 512
      = Some ([GetBytes 4 2, GetBytes 6 4], \<lparr>kind = Float32ArrayK, elems = [0, 1, 5, 6]\<rparr>, None)"
proof -
  let ?rs = "[\<lparr>range_start = 0, range_end = 2\<rparr>, \<lparr>range_start = 0, range_end = 2\<rparr>]"
  let ?o3 = "\<lparr>kind = Float32ArrayK, elems = [9, 9, 9]\<rparr>"
  note f = array_reader_facts
  have len: "length ?rs = length (om_variable_get_dimensions (wasm array_reader) [1, 20, 0, 0])"
    by (simp add: f)
  have p: "extent_product ?rs = 4" by (simp add: extent_product_def range_extent_def)
  have small: "int (length (elems ?o3)) < extent_product ?rs" by (simp add: p)
  from readInto_buffer_too_small [OF f(1) f(2) len, of ?o3 65536 512] small
  have "readInto array_reader 20 ?o3 ?rs 65536 512
          = Some ([], ?o3, Some (OutputArrayTooSmall (extent_product ?rs) (length (elems ?o3))))"
    by blast
  then show ?thesis
    using array_readInto_2x2 by (simp add: p f)
qed

section \<open>read against readInto\<close>

text \<open>
  Claim C7 as stated: for every data type, \<open>read\<close> returns the values that \<open>readInto\<close>
  writes into a correctly sized array. The variable of \<open>int64_file\<close> has data type 18;
  \<open>read\<close> with that type fails with the unsupported-data-type error, while \<open>readInto\<close>
  with the same type and ranges fills an array of four elements.
\<close>

theorem read_every_data_type_counterexample:
  "dataType int64_reader = Inr 18
   \<and> read stub_max_length int64_reader 18
        [\<lparr>range_start = 0, range_end = 2\<rparr>, \<lparr>range_start = 0, range_end = 2\<rparr>] 65536 512
      = Some ([], Inl UnsupportedDataType)
   \<and> readInto int64_reader 18 \<lparr>kind = Float64ArrayK, elems = [0, 0, 0, 0]\<rparr>
        [\<lparr>range_start = 0, range_end = 2\<rparr>, \<lparr>range_start = 0, range_end = 2\<rparr>] 65536 512
      = Some ([GetBytes 4 2, GetBytes 6 4], \<lparr>kind = Float64ArrayK, elems = [0, 1, 5, 6]\<rparr>, None)"
  unfolding read_checked [OF int64_reader_facts(1,2)]
    readInto_checked [OF int64_reader_facts(1,2)] int64_reader_facts
  by (simp add: array_request_simps dataType_def int64_reader_eq
      stub_decode [OF array_file_blocks(3,4)])

text \<open>
  Claim C7 as amended: for every reader, every data type that \<open>read\<close> allocates an array
  for (the eight array types from \<open>Int8Array\<close> to \<open>DoubleArray\<close> without the 64-bit
  integer ones) and every request, \<open>read\<close> does what \<open>readInto\<close> does on a caller's
  array of the constructor \<open>read\<close> would choose and of exactly as many elements as the
  product of the extents (an array that exists, so that its length is within the limit on
  the length of a typed array): the same backend calls, and either the same error, or the
  same array contents, or neither returns.
\<close>

theorem read_equals_readInto:
  assumes "output_kind dt = Some (kind buffer)"
    and "int (length (elems buffer)) = extent_product dimRanges"
    and "array_exists maxLength buffer"
  shows "read maxLength r dt dimRanges ioSizeMax ioSizeMerge
           = (case readInto r dt buffer dimRanges ioSizeMax ioSizeMerge of
                None \<Rightarrow> None
              | Some (calls, out1, None) \<Rightarrow> Some (calls, Inr out1)
              | Some (calls, out1, Some e) \<Rightarrow> Some (calls, Inl e))"
proof (cases "variable r")
  case None
  then show ?thesis by (simp add: read_def readInto_def)
next
  case (Some v)
  show ?thesis
  proof (cases "om_variable_get_type (wasm r) v = dt")
    case False
    with Some show ?thesis by (simp add: read_def readInto_def dataType_def)
  next
    case True
    let ?fresh = "\<lparr>kind = kind buffer, elems = replicate (nat (extent_product dimRanges)) 0\<rparr>"
    have nn: "\<not> extent_product dimRanges < 0" using assms(2) by linarith
    have lim: "\<not> extent_product dimRanges > typed_array_limit maxLength (kind buffer)"
      using assms(2,3) by (simp add: array_exists_def)
    have shape: "kind ?fresh = kind buffer" "length (elems ?fresh) = length (elems buffer)"
      using assms(2) by simp_all
    have "(case readInto r dt ?fresh dimRanges ioSizeMax ioSizeMerge of
             None \<Rightarrow> None
           | Some (calls, out1, None) \<Rightarrow> Some (calls, Inr out1)
           | Some (calls, out1, Some e) \<Rightarrow> Some (calls, Inl e))
        = (case readInto r dt buffer dimRanges ioSizeMax ioSizeMerge of
             None \<Rightarrow> None
           | Some (calls, out1, None) \<Rightarrow> Some (calls, Inr out1)
           | Some (calls, out1, Some e) \<Rightarrow> Some (calls, Inl e))"
      using decode_same_shape [OF shape, of "wasm r" "backend r"] shape(2)
      by (auto simp: readInto_checked [OF Some True] Let_def split: sum.splits prod.splits)
    then show ?thesis
      using nn lim by (simp add: read_checked [OF Some True] assms(1))
  qed
qed

theorem read_equals_readInto_witness:
  "output_kind 20 = Some (kind \<lparr>kind = Float32ArrayK, elems = [9, 9, 9, 9]\<rparr>)
   \<and> array_exists stub_max_length \<lparr>kind = Float32ArrayK, elems = [9, 9, 9, 9]\<rparr>
   \<and> int (length (elems \<lparr>kind = Float32ArrayK, elems = [9, 9, 9, 9]\<rparr>))
       = extent_product [\<lparr>range_start = 0, range_end = 2\<rparr>, \<lparr>range_start = 0, range_end = 2\<rparr>]
   \<and> readInto array_reader 20 \<lparr>kind = Float32ArrayK, elems = [9, 9, 9, 9]\<rparr>
        [\<lparr>range_start = 0, range_end = 2\<rparr>, \<lparr>range_start = 0, range_end = 2\<rparr>] 65536 512
      = Some ([GetBytes 4 2, GetBytes 6 4], \<lparr>kind = Float32ArrayK, elems = [0, 1, 5, 6]\<rparr>, None)
   \<and> read stub_max_length array_reader 20
        [\<lparr>range_start = 0, range_end = 2\<rparr>, \<lparr>range_start = 0, range_end = 2\<rparr>] 65536 512
      = Some ([GetBytes 4 2, GetBytes 6 4], Inr \<lparr>kind = Float32ArrayK, elems = [0, 1, 5, 6]\<rparr>)"
proof -
  let ?rs = "[\<lparr>range_start = 0, range_end = 2\<rparr>, \<lparr>range_start = 0, range_end = 2\<rparr>]"
  let ?buf = "\<lparr>kind = Float32ArrayK, elems = [9, 9, 9, 9]\<rparr>"
  have k: "output_kind 20 = Some (kind ?buf)" by (simp add: output_kind_def)
  have n: "int (length (elems ?buf)) = extent_product ?rs"
    by (simp add: extent_product_def range_extent_def)
  have x: "array_exists stub_max_length ?buf"
    by (simp add: array_exists_def stub_typed_array_limit)
  from read_equals_readInto [OF k n x, of array_reader 65536 512]
  have "read stub_max_length array_reader 20 ?rs 65536 512
          = Some ([GetBytes 4 2, GetBytes 6 4], Inr \<lparr>kind = Float32ArrayK, elems = [0, 1, 5, 6]\<rparr>)"
    by (simp add: array_readInto_2x2)
  with k n x array_readInto_2x2 show ?thesis by simp
qed

section \<open>The flattening walk against its specification\<close>

lemma record_entries_append:
  "record_entries (xs @ ys) m = record_entries ys (record_entries xs m)"
  by (simp add: record_entries_def)

lemma assign_entries_append:
  "assign_entries (xs @ ys) obj = assign_entries ys (assign_entries xs obj)"
  by (simp add: assign_entries_def)

lemma assign_entries_Nil: "assign_entries [] obj = obj"
  by (simp add: assign_entries_def)

text \<open>The loop of the walk against the loop that builds the children's trees.\<close>

lemma children_loop_refines:
  fixes r :: "('v, 'dec, 'ir, 'dr, 'mem) OmFileReader"
  assumes child:
    "\<And>(c :: ('v, 'dec, 'ir, 'dr, 'mem) OmFileReader) p res.
       collectVariableMetadata fuel c p res =
       (case reader_tree fuel c of
          None \<Rightarrow> None
        | Some (Inl e) \<Rightarrow> Some (Inl e)
        | Some (Inr t) \<Rightarrow> Some (Inr (assign_entries (spec_flatten p t) res)))"
  shows
    "for_each_child
       (\<lambda>i res. case getChild r i of
                   Inl e \<Rightarrow> Some (Inl e)
                 | Inr None \<Rightarrow> Some (Inr res)
                 | Inr (Some c) \<Rightarrow> collectVariableMetadata fuel c p res)
       idx (assign_entries (concat (map (spec_flatten p) cs0)) base)
     = (case for_each_child
               (\<lambda>i cs. case getChild r i of
                           Inl e \<Rightarrow> Some (Inl e)
                         | Inr None \<Rightarrow> Some (Inr cs)
                         | Inr (Some c) \<Rightarrow>
                             (case reader_tree fuel c of
                                None \<Rightarrow> None
                              | Some (Inl e) \<Rightarrow> Some (Inl e)
                              | Some (Inr t) \<Rightarrow> Some (Inr (cs @ [t]))))
               idx cs0 of
          None \<Rightarrow> None
        | Some (Inl e) \<Rightarrow> Some (Inl e)
        | Some (Inr cs) \<Rightarrow>
            Some (Inr (assign_entries (concat (map (spec_flatten p) cs)) base)))"
proof (induction idx arbitrary: cs0)
  case Nil
  show ?case by simp
next
  case (Cons i idx)
  show ?case
  proof (cases "getChild r i")
    case (Inl e)
    then show ?thesis by simp
  next
    case (Inr oc)
    show ?thesis
    proof (cases oc)
      case None
      with Inr show ?thesis by (simp add: Cons.IH)
    next
      case (Some c)
      show ?thesis
      proof (cases "reader_tree fuel c")
        case None
        with Inr Some show ?thesis by (simp add: child)
      next
        case (Some res)
        show ?thesis
        proof (cases res)
          case (Inl e)
          with Inr \<open>oc = Some c\<close> Some show ?thesis by (simp add: child)
        next
          case (Inr t)
          have "assign_entries (spec_flatten p t)
                  (assign_entries (concat (map (spec_flatten p) cs0)) base)
                = assign_entries (concat (map (spec_flatten p) (cs0 @ [t]))) base"
            by (simp add: assign_entries_append)
          with Inr \<open>getChild r i = Inr oc\<close> \<open>oc = Some c\<close> Some Cons.IH [of "cs0 @ [t]"]
          show ?thesis by (simp add: child)
        qed
      qed
    qed
  qed
qed

text \<open>
  The walk assigns the entries of \<open>spec_flatten\<close>, in order, to the object it is given:
  it visits the nodes depth first, builds the key \<open>parent/child/.../name\<close> for every node
  with a name and a location and for no other node, and visits the children of every node.
\<close>

lemma walk_refines:
  "collectVariableMetadata fuel r path result =
     (case reader_tree fuel r of
        None \<Rightarrow> None
      | Some (Inl e) \<Rightarrow> Some (Inl e)
      | Some (Inr t) \<Rightarrow> Some (Inr (assign_entries (spec_flatten path t) result)))"
proof (induction fuel arbitrary: r path result)
  case 0
  show ?case by simp
next
  case (Suc fuel)
  show ?case
  proof (cases "getName r")
    case (Inl e)
    then show ?thesis by simp
  next
    case (Inr name)
    show ?thesis
    proof (cases "numberOfChildren r")
      case (Inl e)
      with Inr show ?thesis by simp
    next
      case n: (Inr numChildren)
      let ?p = "case name of None \<Rightarrow> path | Some n \<Rightarrow> path @ [n]"
      let ?own = "case (name, offsetSize r) of
                    (Some n, Some l) \<Rightarrow> [(join_path (path @ [n]), l)] | _ \<Rightarrow> []"
      have own: "(case name of None \<Rightarrow> result
                  | Some n \<Rightarrow> (case offsetSize r of None \<Rightarrow> result
                      | Some os \<Rightarrow> js_assign result (join_path (path @ [n])) os))
                 = assign_entries (concat (map (spec_flatten ?p) [])) (assign_entries ?own result)"
        by (simp add: assign_entries_def split: option.splits)
      note loop = children_loop_refines [where fuel = fuel and r = r and p = ?p
                      and idx = "map int [0..<nat numChildren]" and ?cs0.0 = "[]"
                      and base = "assign_entries ?own result", OF Suc.IH]
      show ?thesis
        using Inr n
        apply (simp only: collectVariableMetadata.simps reader_tree.simps sum.case Let_def own loop)
        apply (simp add: assign_entries_append assign_entries_Nil split: option.splits sum.splits)
        done
    qed
  qed
qed

text \<open>
  As long as no key is \<open>__proto__\<close>, assigning the entries to the object records them the
  way the specification has it, and the walk of a tree without such a key returns the
  specification's map.
\<close>

lemma assign_entries_without_proto:
  assumes "''__proto__'' \<notin> fst ` set es"
  shows "assign_entries es obj = obj\<lparr>own_entries := record_entries es (own_entries obj)\<rparr>"
  using assms
proof (induction es arbitrary: obj)
  case Nil
  show ?case by (simp add: assign_entries_def record_entries_def)
next
  case (Cons e es)
  obtain k v where e: "e = (k, v)" by (cases e)
  with Cons.prems have k: "k \<noteq> ''__proto__''" and rest: "''__proto__'' \<notin> fst ` set es"
    by auto
  have "assign_entries (e # es) obj = assign_entries es (js_assign obj k v)"
    by (simp add: assign_entries_def e)
  also have "\<dots> = (js_assign obj k v)
      \<lparr>own_entries := record_entries es (own_entries (js_assign obj k v))\<rparr>"
    by (rule Cons.IH [OF rest])
  also have "\<dots> = obj\<lparr>own_entries := record_entries (e # es) (own_entries obj)\<rparr>"
    using k by (simp add: js_assign_def record_entries_def e)
  finally show ?case .
qed

lemma walk_without_proto:
  assumes "reader_tree fuel r = Some (Inr t)"
    and "''__proto__'' \<notin> fst ` set (spec_flatten [] t)"
  shows "getFlatVariableMetadata fuel r =
           Some (Inr \<lparr>own_entries = record_entries (spec_flatten [] t) Map.empty,
                      prototype = None\<rparr>)"
  using assms
  by (simp add: getFlatVariableMetadata_def walk_refines assign_entries_without_proto
      empty_object_def)

lemma tree_reader_tree:
  "reader_tree 3 tree_reader =
     Some (Inr (Node (Some ''a'') (Some \<lparr>os_offset = 4, os_size = 8\<rparr>)
       [Node (Some ''b'') (Some \<lparr>os_offset = 12, os_size = 4\<rparr>) [],
        Node None (Some \<lparr>os_offset = 16, os_size = 6\<rparr>)
          [Node (Some ''c'') (Some \<lparr>os_offset = 22, os_size = 4\<rparr>) []]]))"
  by (simp add: numeral_3_eq_3 tree_reader_eq getName_def numberOfChildren_def getChild_def
      initChildFromOffsetSize_def new_OmFileReader_def FileBackend_def js_slice_def
      tree_file_def stub_wasm_def byte_at_def stub_name_def upt_rec)

lemma tree_file_walk:
  "getFlatVariableMetadata 3 tree_reader =
     Some (Inr \<lparr>own_entries =
                  record_entries
                    [(''a'', \<lparr>os_offset = 4, os_size = 8\<rparr>),
                     (''a/b'', \<lparr>os_offset = 12, os_size = 4\<rparr>),
                     (''a/c'', \<lparr>os_offset = 22, os_size = 4\<rparr>)] Map.empty,
                prototype = None\<rparr>)"
  using walk_without_proto [OF tree_reader_tree] by simp

lemma proto_reader_eq:
  "proto_reader =
     \<lparr>backend = FileBackend proto_file, wasm = stub_wasm, variable = Some [0, 0, 4, 0],
      variableData = Some [0, 0, 4, 0], variableDataPtr = Some (),
      offsetSize = Some \<lparr>os_offset = 4, os_size = 4\<rparr>\<rparr>"
  by (simp add: proto_reader_def initialize_def finish_initialize_def new_OmFileReader_def
      FileBackend_def js_slice_def proto_file_def stub_wasm_def byte_at_def Let_def)

lemma proto_reader_tree:
  "reader_tree 1 proto_reader =
     Some (Inr (Node (Some ''__proto__'') (Some \<lparr>os_offset = 4, os_size = 4\<rparr>) []))"
  by (simp add: proto_reader_eq getName_def numberOfChildren_def stub_wasm_def byte_at_def
      stub_name_def)

text \<open>
  Claim C9: the walk of \<open>getFlatVariableMetadata\<close> records the key
  \<open>parent/child/.../name\<close>, mapped to the node's location, exactly for the nodes that have
  both a name and a location. The root of \<open>proto_file\<close> has the name \<open>__proto__\<close> and
  the location \<open>(4, 4)\<close>, so the specification's flattening of its tree has the one entry
  \<open>__proto__\<close>. The walk of the source returns an object without any entry: the
  assignment has replaced the object's prototype instead.
\<close>

theorem proto_name_not_recorded:
  "getName proto_reader = Inr (Some ''__proto__'')
   \<and> offsetSize proto_reader = Some \<lparr>os_offset = 4, os_size = 4\<rparr>
   \<and> reader_tree 1 proto_reader =
       Some (Inr (Node (Some ''__proto__'') (Some \<lparr>os_offset = 4, os_size = 4\<rparr>) []))
   \<and> spec_flatten [] (Node (Some ''__proto__'') (Some \<lparr>os_offset = 4, os_size = 4\<rparr>) [])
       = [(''__proto__'', \<lparr>os_offset = 4, os_size = 4\<rparr>)]
   \<and> getFlatVariableMetadata 1 proto_reader =
       Some (Inr \<lparr>own_entries = Map.empty,
                  prototype = Some \<lparr>os_offset = 4, os_size = 4\<rparr>\<rparr>)"
proof -
  let ?loc = "\<lparr>os_offset = 4, os_size = 4\<rparr>"
  have name: "getName proto_reader = Inr (Some ''__proto__'')"
    by (simp add: proto_reader_eq getName_def stub_wasm_def byte_at_def stub_name_def)
  have loc: "offsetSize proto_reader = Some ?loc"
    by (simp add: proto_reader_eq)
  have flat: "spec_flatten [] (Node (Some ''__proto__'') (Some ?loc) [])
                = [(''__proto__'', ?loc)]"
    by simp
  have "getFlatVariableMetadata 1 proto_reader =
          Some (Inr (assign_entries [(''__proto__'', ?loc)] empty_object))"
    unfolding getFlatVariableMetadata_def walk_refines proto_reader_tree
    by (simp only: option.case sum.case flat)
  then have walk: "getFlatVariableMetadata 1 proto_reader =
          Some (Inr \<lparr>own_entries = Map.empty, prototype = Some ?loc\<rparr>)"
    by (simp add: assign_entries_def js_assign_def empty_object_def)
  from name loc proto_reader_tree flat walk show ?thesis by simp
qed

end
